theory Spec2Isabelle
  imports Complex_Main
begin

section \<open>Values, errors and arrays\<close>

text \<open>
  The notebook computes with NumPy arrays of IEEE doubles.  An array element is modelled as
  a finite real number or one of the three special values; rounding is not modelled, the
  propagation of the special values is.  A Python exception is a value of \<open>error\<close>.
\<close>

datatype fval = Finite real | PInf | NInf | NaN

datatype error =
    ValueError | IndexError | AttributeError | RuntimeError | ShapeMismatch | FittingFailure

fun is_finite :: "fval \<Rightarrow> bool" where
  "is_finite (Finite _) = True"
| "is_finite _ = False"

fun fadd :: "fval \<Rightarrow> fval \<Rightarrow> fval" where
  "fadd (Finite a) (Finite b) = Finite (a + b)"
| "fadd NaN _ = NaN"
| "fadd _ NaN = NaN"
| "fadd PInf NInf = NaN"
| "fadd NInf PInf = NaN"
| "fadd PInf _ = PInf"
| "fadd _ PInf = PInf"
| "fadd NInf _ = NInf"
| "fadd _ NInf = NInf"

fun fneg :: "fval \<Rightarrow> fval" where
  "fneg (Finite a) = Finite (- a)"
| "fneg PInf = NInf"
| "fneg NInf = PInf"
| "fneg NaN = NaN"

fun fmul :: "fval \<Rightarrow> fval \<Rightarrow> fval" where
  "fmul (Finite a) (Finite b) = Finite (a * b)"
| "fmul NaN _ = NaN"
| "fmul _ NaN = NaN"
| "fmul (Finite a) v = (if a = 0 then NaN else if 0 < a then v else fneg v)"
| "fmul v (Finite b) = (if b = 0 then NaN else if 0 < b then v else fneg v)"
| "fmul PInf v = v"
| "fmul NInf v = fneg v"

fun fsin :: "fval \<Rightarrow> fval" where
  "fsin (Finite a) = Finite (sin a)"
| "fsin _ = NaN"

text \<open>A NumPy array: its shape and its elements in row-major (C) order.\<close>

record ndarray =
  shape :: "nat list"
  data :: "fval list"

text \<open>The position of a multi-index in the row-major buffer.\<close>

definition flat_index :: "nat list \<Rightarrow> nat list \<Rightarrow> nat" where
  "flat_index dims idx = foldl (\<lambda>acc (d, i). acc * d + i) 0 (zip dims idx)"

definition item :: "ndarray \<Rightarrow> nat list \<Rightarrow> fval" where
  "item a idx = data a ! flat_index (shape a) idx"

subsection \<open>The NumPy functions the notebook calls\<close>

text \<open>
  \<^verbatim>\<open>np.linspace(start, stop, num)\<close>: a negative \<open>num\<close> raises ValueError; otherwise \<open>num\<close>
  samples \<open>start + i * step\<close> with \<open>step = (stop - start) / (num - 1)\<close>, the last one set
  to \<open>stop\<close> when there is more than one.
\<close>

definition linspace_samples :: "real \<Rightarrow> real \<Rightarrow> nat \<Rightarrow> fval list" where
  "linspace_samples start stop n =
     (let delta = stop - start;
          step = (if 1 < n then delta / real (n - 1) else delta);
          y = map (\<lambda>i. Finite (real i * step + start)) [0..<n]
      in if 1 < n then y[n - 1 := Finite stop] else y)"

definition linspace :: "real \<Rightarrow> real \<Rightarrow> int \<Rightarrow> error + ndarray" where
  "linspace start stop num =
     (if num < 0 then Inl ValueError
      else Inr \<lparr>shape = [nat num], data = linspace_samples start stop (nat num)\<rparr>)"

text \<open>
  \<^verbatim>\<open>a.reshape(d0, d1, ...)\<close>: the buffer is kept and the shape replaced; ValueError when the
  new shape does not hold exactly the elements of the array.  The inferred dimension
  \<open>-1\<close> is never passed in this program (a negative sample count fails in
  \<open>linspace\<close> before the reshape) and is answered like any other negative dimension.
\<close>

definition reshape :: "ndarray \<Rightarrow> int list \<Rightarrow> error + ndarray" where
  "reshape a dims =
     (if list_all (\<lambda>d. 0 \<le> d) dims \<and> prod_list (map nat dims) = length (data a)
      then Inr (a\<lparr>shape := map nat dims\<rparr>)
      else Inl ValueError)"

definition flatten :: "ndarray \<Rightarrow> ndarray" where
  "flatten a = a\<lparr>shape := [length (data a)]\<rparr>"

definition np_sin :: "ndarray \<Rightarrow> ndarray" where
  "np_sin a = a\<lparr>data := map fsin (data a)\<rparr>"

text \<open>
  Elementwise \<open>+\<close> and \<open>*\<close> of two arrays.  Every call of the notebook passes two arrays of
  one shape; broadcasting between different shapes is not modelled and is answered with
  the error NumPy raises for incompatible shapes.
\<close>

definition np_add :: "ndarray \<Rightarrow> ndarray \<Rightarrow> error + ndarray" where
  "np_add a b =
     (if shape a = shape b then Inr \<lparr>shape = shape a, data = map2 fadd (data a) (data b)\<rparr>
      else Inl ValueError)"

definition np_mul :: "ndarray \<Rightarrow> ndarray \<Rightarrow> error + ndarray" where
  "np_mul a b =
     (if shape a = shape b then Inr \<lparr>shape = shape a, data = map2 fmul (data a) (data b)\<rparr>
      else Inl ValueError)"

text \<open>A Python scalar times an array, and a Python scalar plus an array.\<close>

definition scalar_mul :: "real \<Rightarrow> ndarray \<Rightarrow> ndarray" where
  "scalar_mul c a = a\<lparr>data := map (fmul (Finite c)) (data a)\<rparr>"

definition scalar_add :: "real \<Rightarrow> ndarray \<Rightarrow> ndarray" where
  "scalar_add c a = a\<lparr>data := map (fadd (Finite c)) (data a)\<rparr>"

text \<open>
  The global NumPy random generator.  The standard normal variates it will yield, in
  order, are a parameter \<open>z\<close> of the model (\<open>z k\<close> is the \<open>k\<close>-th one, a finite double);
  the state of the generator is the number of variates already consumed.
  \<^verbatim>\<open>np.random.normal(loc, scale, size)\<close> consumes one variate per element and returns
  \<open>loc + scale * variate\<close>; \<^verbatim>\<open>np.random.randn(d0, d1, ...)\<close> is the standard normal case.
  Both raise ValueError on a negative dimension, \<open>normal\<close> also on a negative scale.
\<close>

type_synonym variates = "nat \<Rightarrow> real"

definition random_normal ::
  "variates \<Rightarrow> real \<Rightarrow> real \<Rightarrow> int list \<Rightarrow> nat \<Rightarrow> error + (ndarray \<times> nat)" where
  "random_normal z loc scale sz pos =
     (if scale < 0 \<or> \<not> list_all (\<lambda>d. 0 \<le> d) sz then Inl ValueError
      else
        let dims = map nat sz; n = prod_list dims
        in Inr (\<lparr>shape = dims, data = map (\<lambda>k. Finite (loc + scale * z (pos + k))) [0..<n]\<rparr>,
                pos + n))"

definition randn :: "variates \<Rightarrow> int list \<Rightarrow> nat \<Rightarrow> error + (ndarray \<times> nat)" where
  "randn z sz pos = random_normal z 0 1 sz pos"

section \<open>The data synthesizers\<close>

text \<open>
  \<^verbatim>\<open>
  def generate_real_data(n_samples):
      X = np.linspace(0, 100, n_samples * 30).reshape(n_samples, 30, 1)
      y = np.sin(X) + np.random.normal(scale=0.5, size=X.shape)
      return y
  \<close>
\<close>

definition generate_real_data :: "variates \<Rightarrow> int \<Rightarrow> nat \<Rightarrow> error + (ndarray \<times> nat)" where
  "generate_real_data z n_samples pos =
     (case linspace 0 100 (n_samples * 30) of
        Inl e \<Rightarrow> Inl e
      | Inr X0 \<Rightarrow>
     (case reshape X0 [n_samples, 30, 1] of
        Inl e \<Rightarrow> Inl e
      | Inr X \<Rightarrow>
     (case random_normal z 0 0.5 (map int (shape X)) pos of
        Inl e \<Rightarrow> Inl e
      | Inr (noise, pos') \<Rightarrow>
     (case np_add (np_sin X) noise of
        Inl e \<Rightarrow> Inl e
      | Inr y \<Rightarrow> Inr (y, pos')))))"

text \<open>
  \<^verbatim>\<open>
  def generate_rule_based_data(n_samples):
      X = np.linspace(0, 100, n_samples * 30).reshape(n_samples, 30, 1)
      y = np.sin(X) * (1 + 0.1 * np.random.randn(*X.shape))
      return y
  \<close>
\<close>

definition generate_rule_based_data ::
  "variates \<Rightarrow> int \<Rightarrow> nat \<Rightarrow> error + (ndarray \<times> nat)" where
  "generate_rule_based_data z n_samples pos =
     (case linspace 0 100 (n_samples * 30) of
        Inl e \<Rightarrow> Inl e
      | Inr X0 \<Rightarrow>
     (case reshape X0 [n_samples, 30, 1] of
        Inl e \<Rightarrow> Inl e
      | Inr X \<Rightarrow>
     (case randn z (map int (shape X)) pos of
        Inl e \<Rightarrow> Inl e
      | Inr (r, pos') \<Rightarrow>
     (case np_mul (np_sin X) (scalar_add 1 (scalar_mul 0.1 r)) of
        Inl e \<Rightarrow> Inl e
      | Inr y \<Rightarrow> Inr (y, pos')))))"

text \<open>A concrete sequence of variates for the examples: \<open>0, 0.1, 0.2, ...\<close>.\<close>

definition sample_variates :: variates where
  "sample_variates k = real k / 10"

text \<open>The \<open>i\<close>-th of \<open>n\<close> evenly spaced points of the interval from 0 to 100.\<close>

definition ramp :: "nat \<Rightarrow> nat \<Rightarrow> real" where
  "ramp n i = 100 * real i / real (n - 1)"

section \<open>The VAE loss\<close>

text \<open>
  The loss is a formula over the values of four tensors: the input batch and the decoder's
  output, both of shape \<open>(B, 30, 1)\<close>, and the encoder's mean and log-variance, both of
  shape \<open>(B, latent_dim)\<close>.  The formula is modelled over the real numbers, a tensor being
  the nested list of its entries.
  \<^verbatim>\<open>
  input_shape = (30, 1)
  latent_dim = 10
  reconstruction_loss = tf.keras.losses.mean_squared_error(K.flatten(inputs), K.flatten(outputs))
  reconstruction_loss *= input_shape[0] * input_shape[1]
  kl_loss = 1 + z_log_var - K.square(z_mean) - K.exp(z_log_var)
  kl_loss = -0.5 * K.sum(kl_loss, axis=-1)
  vae_loss = K.mean(reconstruction_loss + kl_loss)
  \<close>
\<close>

type_synonym tensor2 = "real list list"
type_synonym tensor3 = "real list list list"

definition input_shape :: "nat list" where
  "input_shape = [30, 1]"

definition latent_dim :: nat where
  "latent_dim = 10"

definition K_flatten :: "tensor3 \<Rightarrow> real list" where
  "K_flatten t = concat (concat t)"

text \<open>The mean of all entries (of no entry, TensorFlow yields NaN: see the theorems' hypotheses).\<close>

definition K_mean :: "real list \<Rightarrow> real" where
  "K_mean xs = sum_list xs / real (length xs)"

definition K_sum_last :: "tensor2 \<Rightarrow> real list" where
  "K_sum_last t = map sum_list t"

definition K_square :: "tensor2 \<Rightarrow> tensor2" where
  "K_square t = map (map (\<lambda>x. x * x)) t"

definition K_exp :: "tensor2 \<Rightarrow> tensor2" where
  "K_exp t = map (map exp) t"

definition tensor_sub :: "tensor2 \<Rightarrow> tensor2 \<Rightarrow> tensor2" where
  "tensor_sub a b = map2 (map2 (-)) a b"

definition scalar_plus :: "real \<Rightarrow> tensor2 \<Rightarrow> tensor2" where
  "scalar_plus c t = map (map ((+) c)) t"

text \<open>\<^verbatim>\<open>mean_squared_error(y_true, y_pred) = mean(square(y_pred - y_true), axis=-1)\<close>, here of two
  flat tensors.\<close>

definition mean_squared_error :: "real list \<Rightarrow> real list \<Rightarrow> real" where
  "mean_squared_error y_true y_pred = K_mean (map2 (\<lambda>t p. (p - t) * (p - t)) y_true y_pred)"

definition reconstruction_loss :: "tensor3 \<Rightarrow> tensor3 \<Rightarrow> real" where
  "reconstruction_loss inputs outputs =
     mean_squared_error (K_flatten inputs) (K_flatten outputs)
       * real (input_shape ! 0 * input_shape ! 1)"

definition kl_loss :: "tensor2 \<Rightarrow> tensor2 \<Rightarrow> real list" where
  "kl_loss z_mean z_log_var =
     map (\<lambda>s. - 0.5 * s)
       (K_sum_last (tensor_sub (tensor_sub (scalar_plus 1 z_log_var) (K_square z_mean))
                      (K_exp z_log_var)))"

text \<open>The scalar reconstruction loss is broadcast over the per-sample KL terms.\<close>

definition vae_loss :: "tensor3 \<Rightarrow> tensor3 \<Rightarrow> tensor2 \<Rightarrow> tensor2 \<Rightarrow> real" where
  "vae_loss inputs outputs z_mean z_log_var =
     K_mean (map (\<lambda>k. reconstruction_loss inputs outputs + k) (kl_loss z_mean z_log_var))"

text \<open>
  \<^verbatim>\<open>
  vae.add_loss(vae_loss)
  vae.compile(optimizer='adam')
  vae.fit(generate_real_data(1000), epochs=50, batch_size=32)
  \<close>
  What a Keras model minimises on a batch: the compiled loss of the prediction against the
  targets, when a loss was compiled and targets were passed, plus every added loss.  The
  notebook compiles no loss and passes no targets.
\<close>

definition training_objective ::
  "(tensor3 \<Rightarrow> tensor3 \<Rightarrow> real) option \<Rightarrow> tensor3 option \<Rightarrow> tensor3 \<Rightarrow> real list \<Rightarrow> real" where
  "training_objective compiled_loss targets prediction added_losses =
     (case compiled_loss of
        None \<Rightarrow> 0
      | Some l \<Rightarrow> (case targets of None \<Rightarrow> 0 | Some y \<Rightarrow> l y prediction))
     + sum_list added_losses"

definition vae_objective :: "tensor3 \<Rightarrow> tensor3 \<Rightarrow> tensor2 \<Rightarrow> tensor2 \<Rightarrow> real" where
  "vae_objective inputs outputs z_mean z_log_var =
     training_objective None None outputs [vae_loss inputs outputs z_mean z_log_var]"

section \<open>The shapes of the Keras models\<close>

text \<open>
  A layer maps the shape of its input batch (batch dimension first) to the shape of its
  output, or rejects it.  The values the layers compute are not modelled here.
  \<^item> \<open>LSTM units return_sequences\<close> takes \<open>(B, T, F)\<close> to \<open>(B, T, units)\<close>, or to \<open>(B, units)\<close>
    when it returns the last state only;
  \<^item> \<open>Dense units\<close> replaces the last dimension of an input of rank two or more;
  \<^item> \<open>Reshape target\<close> keeps the batch dimension and the number of entries per sample;
  \<^item> \<open>RepeatVector n\<close> takes \<open>(B, F)\<close> to \<open>(B, n, F)\<close>;
  \<^item> \<open>TimeDistributed l\<close> applies \<open>l\<close> to every step of \<open>(B, T, ...)\<close>.
\<close>

datatype layer =
    LSTM nat bool
  | Dense nat
  | Reshape "nat list"
  | RepeatVector nat
  | TimeDistributed layer

fun layer_shape :: "layer \<Rightarrow> nat list \<Rightarrow> error + nat list" where
  "layer_shape (LSTM units return_sequences) s =
     (case s of
        [b, t, f] \<Rightarrow> Inr (if return_sequences then [b, t, units] else [b, units])
      | _ \<Rightarrow> Inl ShapeMismatch)"
| "layer_shape (Dense units) s =
     (if 2 \<le> length s then Inr (butlast s @ [units]) else Inl ShapeMismatch)"
| "layer_shape (Reshape target) s =
     (case s of
        [] \<Rightarrow> Inl ShapeMismatch
      | b # rest \<Rightarrow>
          if prod_list rest = prod_list target then Inr (b # target) else Inl ShapeMismatch)"
| "layer_shape (RepeatVector n) s =
     (case s of [b, f] \<Rightarrow> Inr [b, n, f] | _ \<Rightarrow> Inl ShapeMismatch)"
| "layer_shape (TimeDistributed l) s =
     (case s of
        b # t # f # rest \<Rightarrow>
          (case layer_shape l (b # f # rest) of
             Inl e \<Rightarrow> Inl e
           | Inr [] \<Rightarrow> Inl ShapeMismatch
           | Inr (b' # rest') \<Rightarrow> Inr (b' # t # rest'))
      | _ \<Rightarrow> Inl ShapeMismatch)"

fun run_layers :: "layer list \<Rightarrow> nat list \<Rightarrow> error + nat list" where
  "run_layers [] s = Inr s"
| "run_layers (l # ls) s =
     (case layer_shape l s of Inl e \<Rightarrow> Inl e | Inr s' \<Rightarrow> run_layers ls s')"

fun collect :: "(error + 'a) list \<Rightarrow> error + 'a list" where
  "collect [] = Inr []"
| "collect (Inl e # _) = Inl e"
| "collect (Inr x # rs) = (case collect rs of Inl e \<Rightarrow> Inl e | Inr xs \<Rightarrow> Inr (x # xs))"

text \<open>
  A functional model \<^verbatim>\<open>tf.keras.Model(inputs, outputs)\<close> with one input: the declared input
  shape (without the batch dimension), the chain of layers from the input, and one list of
  further layers for each output.  Calling it on anything but one tensor whose shape is a
  batch of the declared input shape is an error.
\<close>

record keras_model =
  declared_input :: "nat list"
  trunk :: "layer list"
  heads :: "layer list list"

definition call_model :: "keras_model \<Rightarrow> nat list list \<Rightarrow> error + nat list list" where
  "call_model m args =
     (case args of
        [s] \<Rightarrow>
          (case s of
             [] \<Rightarrow> Inl ShapeMismatch
           | b # rest \<Rightarrow>
               if rest = declared_input m
               then (case run_layers (trunk m) s of
                       Inl e \<Rightarrow> Inl e
                     | Inr x \<Rightarrow> collect (map (\<lambda>h. run_layers h x) (heads m)))
               else Inl ShapeMismatch)
      | _ \<Rightarrow> Inl ShapeMismatch)"

text \<open>Sequencing of two steps that can fail.\<close>

definition and_then :: "error + 'a \<Rightarrow> ('a \<Rightarrow> error + 'b) \<Rightarrow> error + 'b" where
  "and_then r f = (case r of Inl e \<Rightarrow> Inl e | Inr x \<Rightarrow> f x)"

text \<open>
  \<^verbatim>\<open>
  def build_generator():
      inputs = layers.Input(shape=(30, 1))
      x = layers.LSTM(100, return_sequences=True)(inputs)
      x = layers.LSTM(50)(x)
      x = layers.Dense(30, activation='linear')(x)
      outputs = layers.Reshape((30, 1))(x)
      model = tf.keras.Model(inputs, outputs)
      return model

  def build_discriminator():
      inputs = layers.Input(shape=(30, 1))
      x = layers.LSTM(50, return_sequences=True)(inputs)
      x = layers.LSTM(50)(x)
      outputs = layers.Dense(1, activation='sigmoid')(x)
      model = tf.keras.Model(inputs, outputs)
      return model
  \<close>
\<close>

definition build_generator :: keras_model where
  "build_generator =
     \<lparr>declared_input = [30, 1],
      trunk = [LSTM 100 True, LSTM 50 False, Dense 30, Reshape [30, 1]],
      heads = [[]]\<rparr>"

definition build_discriminator :: keras_model where
  "build_discriminator =
     \<lparr>declared_input = [30, 1],
      trunk = [LSTM 50 True, LSTM 50 False, Dense 1],
      heads = [[]]\<rparr>"

text \<open>
  \<^verbatim>\<open>
  def build_encoder(input_shape, latent_dim):
      inputs = tf.keras.Input(shape=input_shape)
      x = layers.LSTM(50, return_sequences=True)(inputs)
      x = layers.LSTM(50)(x)
      z_mean = layers.Dense(latent_dim)(x)
      z_log_var = layers.Dense(latent_dim)(x)
      return tf.keras.Model(inputs, [z_mean, z_log_var])

  def sampling(args):
      z_mean, z_log_var = args
      batch = K.shape(z_mean)[0]
      dim = K.int_shape(z_mean)[1]
      epsilon = K.random_normal(shape=(batch, dim))
      return z_mean + K.exp(0.5 * z_log_var) * epsilon

  def build_decoder(latent_dim, output_shape):
      inputs = tf.keras.Input(shape=(latent_dim,))
      x = layers.Dense(50)(inputs)
      x = layers.RepeatVector(output_shape[0])(x)
      x = layers.LSTM(50, return_sequences=True)(x)
      x = layers.TimeDistributed(layers.Dense(output_shape[1]))(x)
      return tf.keras.Model(inputs, x)
  \<close>
\<close>

definition build_encoder :: "nat list \<Rightarrow> nat \<Rightarrow> keras_model" where
  "build_encoder in_shape latent =
     \<lparr>declared_input = in_shape,
      trunk = [LSTM 50 True, LSTM 50 False],
      heads = [[Dense latent], [Dense latent]]\<rparr>"

text \<open>
  The shape of the sample.  Unpacking anything but two arguments is a ValueError, and the
  second dimension of a mean of rank below two an IndexError.  The mean, the log-variance
  and the noise all have the shape \<open>(batch, dim)\<close> in this program; broadcasting between
  different shapes is not modelled and is answered with an error.
\<close>

definition sampling :: "nat list list \<Rightarrow> error + nat list" where
  "sampling args =
     (case args of
        [z_mean, z_log_var] \<Rightarrow>
          (case z_mean of
             batch # dim' # _ \<Rightarrow>
               if z_mean = [batch, dim'] \<and> z_log_var = [batch, dim'] then Inr [batch, dim']
               else Inl ShapeMismatch
           | _ \<Rightarrow> Inl IndexError)
      | _ \<Rightarrow> Inl ValueError)"

definition build_decoder :: "nat \<Rightarrow> nat list \<Rightarrow> error + keras_model" where
  "build_decoder latent out_shape =
     (case out_shape of
        d0 # d1 # _ \<Rightarrow>
          Inr \<lparr>declared_input = [latent],
               trunk = [Dense 50, RepeatVector d0, LSTM 50 True, TimeDistributed (Dense d1)],
               heads = [[]]\<rparr>
      | _ \<Rightarrow> Inl IndexError)"

text \<open>
  \<^verbatim>\<open>
  encoder = build_encoder(input_shape, latent_dim)
  decoder = build_decoder(latent_dim, input_shape)
  inputs = tf.keras.Input(shape=input_shape)
  z_mean, z_log_var = encoder(inputs)
  z = layers.Lambda(sampling)([z_mean, z_log_var])
  outputs = decoder(z)
  vae = tf.keras.Model(inputs, outputs)
  \<close>
\<close>

definition encoder :: "nat list list \<Rightarrow> error + nat list list" where
  "encoder args = call_model (build_encoder input_shape latent_dim) args"

definition decoder :: "nat list list \<Rightarrow> error + nat list list" where
  "decoder args = and_then (build_decoder latent_dim input_shape) (\<lambda>m. call_model m args)"

definition vae :: "nat list list \<Rightarrow> error + nat list list" where
  "vae args =
     (case args of
        [s] \<Rightarrow>
          (case s of
             [] \<Rightarrow> Inl ShapeMismatch
           | b # rest \<Rightarrow>
               if rest = input_shape
               then and_then (encoder [s]) (\<lambda>zs. and_then (sampling zs) (\<lambda>z. decoder [z]))
               else Inl ShapeMismatch)
      | _ \<Rightarrow> Inl ShapeMismatch)"

section \<open>The GAN\<close>

text \<open>
  The weights of a network are a list of numbers.  What the framework computes from them
  (a forward pass, a gradient step of Adam on a loss) is not in the repository and is a
  parameter of the model, the \<open>backend\<close>:
  \<^item> \<open>predict w x\<close> is the output of the generator with weights \<open>w\<close> on the batch \<open>x\<close>;
  \<^item> \<open>gradient_step nets trainable gw dw slots x y\<close> is one optimizer step of the model made
    of the networks \<open>nets\<close>, differentiating with respect to the networks \<open>trainable\<close>, on
    the batch \<open>x\<close> with labels \<open>y\<close>, from the generator weights \<open>gw\<close>, the discriminator
    weights \<open>dw\<close> and the optimizer's slots: the weights it assigns, the new slots, the
    loss and the metrics.
\<close>

type_synonym weights = "real list"

datatype net = Generator | Discriminator

record step =
  generator_after :: weights
  discriminator_after :: weights
  slots_after :: "real list"
  loss :: real
  metric :: "string \<Rightarrow> real"

record backend =
  predict :: "weights \<Rightarrow> ndarray \<Rightarrow> ndarray"
  gradient_step ::
    "net list \<Rightarrow> net list \<Rightarrow> weights \<Rightarrow> weights \<Rightarrow> real list \<Rightarrow> ndarray \<Rightarrow> ndarray \<Rightarrow> step"

text \<open>
  What \<^verbatim>\<open>model.compile(...)\<close> fixes for training: the networks whose weights were trainable
  when \<open>compile\<close> was called (Keras keeps the trainable status of compile time until the
  model is compiled again), the metrics, and the optimizer with its slots and its count of
  steps.
\<close>

record compiled =
  collected :: "net list"
  metric_names :: "string list"
  optimizer_slots :: "real list"
  iterations :: nat

text \<open>
  The objects the notebook shares between its cells.  The weights of the two networks exist
  once: the model \<open>gan\<close> is built from the objects \<open>generator\<close> and \<open>discriminator\<close> and
  reads and writes the same weights.  \<open>np_random\<close> is the number of variates the global
  NumPy generator has yielded, \<open>stdout\<close> the status lines printed: epoch, discriminator
  loss, accuracy in percent, generator loss.
\<close>

record session =
  generator_weights :: weights
  discriminator_weights :: weights
  generator_trainable :: bool
  discriminator_trainable :: bool
  discriminator_compiled :: "compiled option"
  gan_compiled :: "compiled option"
  np_random :: nat
  stdout :: "(int \<times> real \<times> real \<times> real list) list"

definition trainable :: "session \<Rightarrow> net \<Rightarrow> bool" where
  "trainable s n =
     (case n of Generator \<Rightarrow> generator_trainable s | Discriminator \<Rightarrow> discriminator_trainable s)"

definition compile :: "session \<Rightarrow> net list \<Rightarrow> string list \<Rightarrow> compiled" where
  "compile s nets ms =
     \<lparr>collected = filter (trainable s) nets, metric_names = ms, optimizer_slots = [],
      iterations = 0\<rparr>"

text \<open>
  \<^verbatim>\<open>
  generator = build_generator()
  discriminator = build_discriminator()
  discriminator.compile(optimizer='adam', loss='binary_crossentropy', metrics=['accuracy'])
  discriminator.trainable = False
  gan_input = layers.Input(shape=(30, 1))
  gan_output = discriminator(generator(gan_input))
  gan = tf.keras.Model(gan_input, gan_output)
  gan.compile(optimizer='adam', loss='binary_crossentropy')
  \<close>
  The initial weights \<open>g0\<close> and \<open>d0\<close> are drawn by the framework.
\<close>

definition notebook_models :: "weights \<Rightarrow> weights \<Rightarrow> session" where
  "notebook_models g0 d0 =
     (let s0 = \<lparr>generator_weights = g0, discriminator_weights = d0,
                generator_trainable = True, discriminator_trainable = True,
                discriminator_compiled = None, gan_compiled = None,
                np_random = 0, stdout = []\<rparr>;
          s1 = s0\<lparr>discriminator_compiled := Some (compile s0 [Discriminator] [''accuracy''])\<rparr>;
          s2 = s1\<lparr>discriminator_trainable := False\<rparr>
      in s2\<lparr>gan_compiled := Some (compile s2 [Generator, Discriminator] [])\<rparr>)"

text \<open>
  \<^verbatim>\<open>model.train_on_batch(x, y)\<close>: an error on a model that was not compiled; otherwise one
  optimizer step, whose new weights are assigned to the networks collected as trainable at
  compile time and to no other.  It returns the loss followed by the compiled metrics.
\<close>

definition train_on_batch ::
  "backend \<Rightarrow> net list \<Rightarrow> compiled option \<Rightarrow> weights \<Rightarrow> weights \<Rightarrow> ndarray \<Rightarrow> ndarray
     \<Rightarrow> error + (weights \<times> weights \<times> compiled \<times> real list)" where
  "train_on_batch be nets c gw dw x y =
     (case c of
        None \<Rightarrow> Inl RuntimeError
      | Some c \<Rightarrow>
          let r = gradient_step be nets (collected c) gw dw (optimizer_slots c) x y;
              gw' = (if Generator \<in> set (collected c) then generator_after r else gw);
              dw' = (if Discriminator \<in> set (collected c) then discriminator_after r else dw);
              c' = c\<lparr>optimizer_slots := slots_after r, iterations := iterations c + 1\<rparr>
          in Inr (gw', dw', c', loss r # map (metric r) (metric_names c)))"

definition discriminator_train_on_batch ::
  "backend \<Rightarrow> session \<Rightarrow> ndarray \<Rightarrow> ndarray \<Rightarrow> error + (session \<times> real list)" where
  "discriminator_train_on_batch be s x y =
     (case train_on_batch be [Discriminator] (discriminator_compiled s)
             (generator_weights s) (discriminator_weights s) x y of
        Inl e \<Rightarrow> Inl e
      | Inr (gw', dw', c', out) \<Rightarrow>
          Inr (s\<lparr>generator_weights := gw', discriminator_weights := dw',
                 discriminator_compiled := Some c'\<rparr>, out))"

definition gan_train_on_batch ::
  "backend \<Rightarrow> session \<Rightarrow> ndarray \<Rightarrow> ndarray \<Rightarrow> error + (session \<times> real list)" where
  "gan_train_on_batch be s x y =
     (case train_on_batch be [Generator, Discriminator] (gan_compiled s)
             (generator_weights s) (discriminator_weights s) x y of
        Inl e \<Rightarrow> Inl e
      | Inr (gw', dw', c', out) \<Rightarrow>
          Inr (s\<lparr>generator_weights := gw', discriminator_weights := dw',
                 gan_compiled := Some c'\<rparr>, out))"

text \<open>
  \<^verbatim>\<open>generator.predict(x)\<close>: Keras predicts batch by batch and raises ValueError when there
  was no batch to predict, that is for an input of no samples; otherwise it returns the
  forward pass of the backend.
\<close>

definition generator_predict :: "backend \<Rightarrow> weights \<Rightarrow> ndarray \<Rightarrow> error + ndarray" where
  "generator_predict be w x =
     (case shape x of
        [] \<Rightarrow> Inl ValueError
      | n # _ \<Rightarrow> if n = 0 then Inl ValueError else Inr (predict be w x))"

text \<open>\<^verbatim>\<open>np.ones(shape)\<close>, \<^verbatim>\<open>np.zeros(shape)\<close>, and \<^verbatim>\<open>np.array([1] * n)\<close> (the list \<open>[1] * n\<close> is
  empty for \<open>n \<le> 0\<close>).\<close>

definition np_full :: "real \<Rightarrow> int list \<Rightarrow> error + ndarray" where
  "np_full c sz =
     (if list_all (\<lambda>d. 0 \<le> d) sz
      then Inr \<lparr>shape = map nat sz, data = replicate (prod_list (map nat sz)) (Finite c)\<rparr>
      else Inl ValueError)"

definition np_ones :: "int list \<Rightarrow> error + ndarray" where
  "np_ones sz = np_full 1 sz"

definition np_zeros :: "int list \<Rightarrow> error + ndarray" where
  "np_zeros sz = np_full 0 sz"

definition ones_vector :: "int \<Rightarrow> ndarray" where
  "ones_vector n = \<lparr>shape = [nat n], data = replicate (nat n) (Finite 1)\<rparr>"

text \<open>
  \<^verbatim>\<open>
  def train_gan(generator, discriminator, gan, epochs=1000, batch_size=32):
      for epoch in range(epochs):
          real_data = generate_real_data(batch_size)
          noise = np.random.normal(0, 1, (batch_size, 30, 1))
          fake_data = generator.predict(noise)
          d_loss_real = discriminator.train_on_batch(real_data, np.ones((batch_size, 1)))
          d_loss_fake = discriminator.train_on_batch(fake_data, np.zeros((batch_size, 1)))
          d_loss = 0.5 * np.add(d_loss_real, d_loss_fake)
          noise = np.random.normal(0, 1, (batch_size, 30, 1))
          valid_y = np.array([1] * batch_size)
          g_loss = gan.train_on_batch(noise, valid_y)
          if epoch % 100 == 0:
              print(f"{epoch} [D loss: {d_loss[0]}, acc.: {100*d_loss[1]}%] [G loss: {g_loss}]")
  \<close>
  The body of the loop up to the \<open>print\<close>: the new session, \<open>d_loss\<close> and \<open>g_loss\<close>.
\<close>

definition train_gan_step ::
  "backend \<Rightarrow> variates \<Rightarrow> int \<Rightarrow> session \<Rightarrow> error + (session \<times> real list \<times> real list)" where
  "train_gan_step be z batch_size s =
     and_then (generate_real_data z batch_size (np_random s)) (\<lambda>(real_data, p1).
     and_then (random_normal z 0 1 [batch_size, 30, 1] p1) (\<lambda>(noise, p2).
     and_then (generator_predict be (generator_weights s) noise) (\<lambda>fake_data.
     and_then (np_ones [batch_size, 1]) (\<lambda>ones.
     and_then (discriminator_train_on_batch be s real_data ones) (\<lambda>(s1, d_loss_real).
     and_then (np_zeros [batch_size, 1]) (\<lambda>zeros.
     and_then (discriminator_train_on_batch be s1 fake_data zeros) (\<lambda>(s2, d_loss_fake).
     let d_loss = map ((*) 0.5) (map2 (+) d_loss_real d_loss_fake) in
     and_then (random_normal z 0 1 [batch_size, 30, 1] p2) (\<lambda>(noise', p3).
     let valid_y = ones_vector batch_size in
     and_then (gan_train_on_batch be s2 noise' valid_y) (\<lambda>(s3, g_loss).
     Inr (s3\<lparr>np_random := p3\<rparr>, d_loss, g_loss))))))))))"

text \<open>The \<open>print\<close> of every hundredth epoch; \<open>d_loss[1]\<close> of a shorter list is an IndexError.\<close>

definition train_gan_report ::
  "int \<Rightarrow> session \<times> real list \<times> real list \<Rightarrow> error + session" where
  "train_gan_report epoch r =
     (case r of (s, d_loss, g_loss) \<Rightarrow>
        if epoch mod 100 = 0
        then (if length d_loss < 2 then Inl IndexError
              else Inr (s\<lparr>stdout := stdout s @ [(epoch, d_loss ! 0, 100 * d_loss ! 1, g_loss)]\<rparr>))
        else Inr s)"

definition train_gan_body ::
  "backend \<Rightarrow> variates \<Rightarrow> int \<Rightarrow> int \<Rightarrow> session \<Rightarrow> error + session" where
  "train_gan_body be z batch_size epoch s =
     and_then (train_gan_step be z batch_size s) (train_gan_report epoch)"

fun train_gan_loop ::
  "backend \<Rightarrow> variates \<Rightarrow> int \<Rightarrow> int list \<Rightarrow> session \<Rightarrow> error + session" where
  "train_gan_loop be z batch_size [] s = Inr s"
| "train_gan_loop be z batch_size (epoch # epochs) s =
     (case train_gan_body be z batch_size epoch s of
        Inl e \<Rightarrow> Inl e
      | Inr s' \<Rightarrow> train_gan_loop be z batch_size epochs s')"

text \<open>\<^verbatim>\<open>range(n)\<close>: the integers from 0 to \<open>n - 1\<close>, none when \<open>n \<le> 0\<close>.\<close>

definition py_range :: "int \<Rightarrow> int list" where
  "py_range n = [0..n - 1]"

text \<open>An argument that is left out (\<open>None\<close>) takes its default.\<close>

definition default_arg :: "int \<Rightarrow> int option \<Rightarrow> int" where
  "default_arg d a = (case a of None \<Rightarrow> d | Some v \<Rightarrow> v)"

definition train_gan ::
  "backend \<Rightarrow> variates \<Rightarrow> session \<Rightarrow> int option \<Rightarrow> int option \<Rightarrow> error + session" where
  "train_gan be z s epochs batch_size =
     train_gan_loop be z (default_arg 32 batch_size) (py_range (default_arg 1000 epochs)) s"

text \<open>
  The compile-time configuration that the notebook's cells set up: the discriminator model
  trains the discriminator and reports the accuracy, the model \<open>gan\<close> trains the generator
  only.  Weights, optimizer slots, generator state and output are arbitrary.
\<close>

definition as_built :: "session \<Rightarrow> bool" where
  "as_built s =
     ((case discriminator_compiled s of
         None \<Rightarrow> False
       | Some c \<Rightarrow> collected c = [Discriminator] \<and> metric_names c = [''accuracy''])
      \<and> (case gan_compiled s of
            None \<Rightarrow> False
          | Some c \<Rightarrow> collected c = [Generator] \<and> metric_names c = []))"

text \<open>The number of optimizer steps a compiled model has taken.\<close>

definition steps_taken :: "compiled option \<Rightarrow> nat" where
  "steps_taken c = (case c of None \<Rightarrow> 0 | Some c \<Rightarrow> iterations c)"

text \<open>
  A backend for the examples: the forward pass returns its input, and every optimizer step
  proposes to add 1 to every weight of both networks, with loss 1 and every metric 1/2.
\<close>

definition sample_backend :: backend where
  "sample_backend =
     \<lparr>predict = (\<lambda>w x. x),
      gradient_step = (\<lambda>nets tr gw dw slots x y.
        \<lparr>generator_after = map ((+) 1) gw, discriminator_after = map ((+) 1) dw,
         slots_after = slots, loss = 1, metric = (\<lambda>m. 1 / 2)\<rparr>)\<rparr>"

section \<open>The ARIMA baseline\<close>

text \<open>
  \<^verbatim>\<open>
  real_data_arima = generate_real_data(100).flatten()
  arima_model = sm.tsa.ARIMA(real_data_arima, order=(5, 1, 0))
  arima_fit = arima_model.fit()
  arima_pred = arima_fit.predict(start=0, end=len(real_data_arima)-1, typ='levels')
  arima_pred = arima_pred.values.reshape(100, 30, 1)
  \<close>
  The time-series library is not in the repository; its numerics are parameters:
  \<open>fit series order\<close> builds and fits the model, \<open>None\<close> when the fit fails (a series too
  short for the order, a solver that does not converge), and \<open>forecast m start end typ\<close> are
  the predicted values.

  The data given to the library is a NumPy array or a pandas series, and \<open>predict\<close> returns
  its values in the container of the data: a pandas series for pandas data, a NumPy array
  for a NumPy array.  A pandas series has the attribute \<open>values\<close>, its NumPy array; a NumPy
  array has no such attribute, and reading it raises AttributeError.
\<close>

datatype pyobject = NdArray ndarray | Series "fval list"

definition series_data :: "pyobject \<Rightarrow> fval list" where
  "series_data obj = (case obj of NdArray a \<Rightarrow> data a | Series v \<Rightarrow> v)"

definition py_len :: "pyobject \<Rightarrow> int" where
  "py_len obj = int (length (series_data obj))"

definition arima_predict ::
  "('m \<Rightarrow> int \<Rightarrow> int \<Rightarrow> string \<Rightarrow> fval list) \<Rightarrow> pyobject \<Rightarrow> 'm \<Rightarrow> int \<Rightarrow> int \<Rightarrow> string
     \<Rightarrow> pyobject" where
  "arima_predict forecast endog m start end' typ' =
     (let v = forecast m start end' typ'
      in case endog of
           NdArray _ \<Rightarrow> NdArray \<lparr>shape = [length v], data = v\<rparr>
         | Series _ \<Rightarrow> Series v)"

definition values_attribute :: "pyobject \<Rightarrow> error + ndarray" where
  "values_attribute obj =
     (case obj of
        NdArray _ \<Rightarrow> Inl AttributeError
      | Series v \<Rightarrow> Inr \<lparr>shape = [length v], data = v\<rparr>)"

definition arima_pred ::
  "(fval list \<Rightarrow> nat \<times> nat \<times> nat \<Rightarrow> 'm option) \<Rightarrow> ('m \<Rightarrow> int \<Rightarrow> int \<Rightarrow> string \<Rightarrow> fval list)
     \<Rightarrow> variates \<Rightarrow> nat \<Rightarrow> error + (ndarray \<times> nat)" where
  "arima_pred fit forecast z pos =
     and_then (generate_real_data z 100 pos) (\<lambda>(real_data, pos').
       let real_data_arima = NdArray (flatten real_data) in
       (case fit (series_data real_data_arima) (5, 1, 0) of
          None \<Rightarrow> Inl FittingFailure
        | Some arima_fit \<Rightarrow>
            let p = arima_predict forecast real_data_arima arima_fit 0
                      (py_len real_data_arima - 1) ''levels''
            in and_then (values_attribute p) (\<lambda>v.
               and_then (reshape v [100, 30, 1]) (\<lambda>a. Inr (a, pos')))))"

text \<open>
  Two libraries for the examples.  In the first the fit fails on an empty series only, the
  fitted model is the series, and the forecast from \<open>start\<close> to \<open>end\<close> is that part of
  the series, NaN where the series has no value.  In the second every fit fails.
\<close>

definition sample_fit :: "fval list \<Rightarrow> nat \<times> nat \<times> nat \<Rightarrow> fval list option" where
  "sample_fit series order = (if series = [] then None else Some series)"

definition sample_forecast :: "fval list \<Rightarrow> int \<Rightarrow> int \<Rightarrow> string \<Rightarrow> fval list" where
  "sample_forecast m start end' typ' =
     map (\<lambda>k. if nat start + k < length m then m ! (nat start + k) else NaN)
       [0..<nat (end' - start + 1)]"

definition failing_fit :: "fval list \<Rightarrow> nat \<times> nat \<times> nat \<Rightarrow> fval list option" where
  "failing_fit series order = None"

section \<open>Properties of the synthesizers\<close>

lemma map2_same: "map2 f (map g xs) (map h xs) = map (\<lambda>x. f (g x) (h x)) xs"
  by (induction xs) simp_all

lemma ramp_last: "1 < n \<Longrightarrow> ramp n (n - 1) = 100"
proof -
  assume "1 < n"
  then have nz: "real (n - 1) \<noteq> 0" by simp
  have "100 * x / x = 100" if "x \<noteq> 0" for x :: real
    using that by simp
  from this [OF nz] show ?thesis
    unfolding ramp_def .
qed

lemma linspace_negative: "num < 0 \<Longrightarrow> linspace start stop num = Inl ValueError"
  by (simp add: linspace_def)

lemma linspace_samples_ramp:
  "linspace_samples 0 100 n = map (\<lambda>i. Finite (ramp n i)) [0..<n]"
proof (rule nth_equalityI)
  show "length (linspace_samples 0 100 n) = length (map (\<lambda>i. Finite (ramp n i)) [0..<n])"
    by (simp add: linspace_samples_def)
next
  fix i assume "i < length (linspace_samples 0 100 n)"
  then have i: "i < n" by (simp add: linspace_samples_def split: if_splits)
  show "linspace_samples 0 100 n ! i = map (\<lambda>i. Finite (ramp n i)) [0..<n] ! i"
  proof (cases "1 < n")
    case True
    show ?thesis
    proof (cases "i = n - 1")
      case True
      with \<open>1 < n\<close> i ramp_last [OF \<open>1 < n\<close>] show ?thesis
        by (simp add: linspace_samples_def)
    next
      case False
      with \<open>1 < n\<close> i show ?thesis by (simp add: linspace_samples_def ramp_def)
    qed
  next
    case False
    with i have "n = 1" "i = 0" by auto
    then show ?thesis by (simp add: linspace_samples_def ramp_def)
  qed
qed

lemma linspace_ramp:
  "0 \<le> num \<Longrightarrow> linspace 0 100 num =
     Inr \<lparr>shape = [nat num], data = map (\<lambda>i. Finite (ramp (nat num) i)) [0..<nat num]\<rparr>"
  by (simp add: linspace_def linspace_samples_ramp)

lemma generate_real_data_value:
  assumes "0 \<le> n"
  shows "generate_real_data z n pos =
           Inr (\<lparr>shape = [nat n, 30, 1],
                 data = map (\<lambda>k. Finite (sin (ramp (nat n * 30) k) + 0.5 * z (pos + k)))
                          [0..<nat n * 30]\<rparr>,
                pos + nat n * 30)"
proof -
  have num: "0 \<le> n * 30" "nat (n * 30) = nat n * 30"
    using assms by (simp_all add: nat_mult_distrib)
  show ?thesis
    using assms
    by (simp add: generate_real_data_def linspace_ramp [OF num(1)] num(2) reshape_def
        random_normal_def np_add_def np_sin_def Let_def map2_same o_def)
qed

lemma generate_rule_based_data_value:
  assumes "0 \<le> n"
  shows "generate_rule_based_data z n pos =
           Inr (\<lparr>shape = [nat n, 30, 1],
                 data = map (\<lambda>k. Finite (sin (ramp (nat n * 30) k) * (1 + 0.1 * z (pos + k))))
                          [0..<nat n * 30]\<rparr>,
                pos + nat n * 30)"
proof -
  have num: "0 \<le> n * 30" "nat (n * 30) = nat n * 30"
    using assms by (simp_all add: nat_mult_distrib)
  show ?thesis
    using assms
    by (simp add: generate_rule_based_data_def linspace_ramp [OF num(1)] num(2) reshape_def
        randn_def random_normal_def np_mul_def np_sin_def scalar_add_def scalar_mul_def
        Let_def map2_same o_def)
qed

lemma generate_real_data_negative:
  "n < 0 \<Longrightarrow> generate_real_data z n pos = Inl ValueError"
  by (simp add: generate_real_data_def linspace_negative)

lemma generate_rule_based_data_negative:
  "n < 0 \<Longrightarrow> generate_rule_based_data z n pos = Inl ValueError"
  by (simp add: generate_rule_based_data_def linspace_negative)

lemma flat_index_3: "flat_index [a, b, c] [i, j, l] = (i * b + j) * c + l"
  by (simp add: flat_index_def)

lemma list_all_map_upt: "list_all P (map f [0..<n]) = (\<forall>k<n. P (f k))"
  by (auto simp: list_all_iff)

text \<open>
  C1.  For a positive \<open>n_samples\<close> the call returns (it raises nothing) an array of shape
  \<open>(n_samples, 30, 1)\<close>.  Its entry \<open>(i, j, 0)\<close> is the sine of point \<open>i * 30 + j\<close> of the
  evenly spaced ramp of \<open>n_samples * 30\<close> points from 0 to 100, plus a normal variate of
  location 0 and scale 0.5; every entry consumes a variate of its own, and every entry is a
  finite number.
\<close>

theorem generate_real_data_positive:
  assumes "0 < n"
  shows "\<exists>y. generate_real_data z n pos = Inr (y, pos + nat n * 30)
           \<and> shape y = [nat n, 30, 1]
           \<and> length (data y) = nat n * 30
           \<and> (\<forall>i j. i < nat n \<and> j < 30 \<longrightarrow>
                 item y [i, j, 0] =
                   Finite (sin (100 * real (i * 30 + j) / real (nat n * 30 - 1))
                           + (0 + 0.5 * z (pos + (i * 30 + j)))))
           \<and> 100 * real (0::nat) / real (nat n * 30 - 1) = 0
           \<and> 100 * real (nat n * 30 - 1) / real (nat n * 30 - 1) = 100
           \<and> list_all is_finite (data y)"
proof -
  let ?N = "nat n * 30"
  let ?y = "\<lparr>shape = [nat n, 30, 1],
             data = map (\<lambda>k. Finite (sin (ramp ?N k) + 0.5 * z (pos + k))) [0..<?N]\<rparr>"
  from assms have val: "generate_real_data z n pos = Inr (?y, pos + ?N)"
    by (simp add: generate_real_data_value)
  have entries: "item ?y [i, j, 0] =
      Finite (sin (100 * real (i * 30 + j) / real (?N - 1)) + (0 + 0.5 * z (pos + (i * 30 + j))))"
    if "i < nat n" "j < 30" for i j
  proof -
    from that have "i * 30 + j < ?N" by simp
    then show ?thesis
      by (simp add: item_def flat_index_3 ramp_def)
  qed
  from assms have "1 < ?N" by simp
  from ramp_last [OF this] have last: "100 * real (?N - 1) / real (?N - 1) = 100"
    by (simp only: ramp_def)
  have fin: "list_all is_finite (data ?y)"
    by (simp add: list_all_map_upt)
  show ?thesis
  proof (intro exI [of _ ?y] conjI allI impI)
    show "generate_real_data z n pos = Inr (?y, pos + ?N)" by (fact val)
    show "shape ?y = [nat n, 30, 1]" by simp
    show "length (data ?y) = ?N" by simp
    show "item ?y [i, j, 0] =
        Finite (sin (100 * real (i * 30 + j) / real (?N - 1)) + (0 + 0.5 * z (pos + (i * 30 + j))))"
      if "i < nat n \<and> j < 30" for i j
      using that entries by blast
    show "100 * real (0::nat) / real (?N - 1) = 0" by simp
    show "100 * real (?N - 1) / real (?N - 1) = 100" by (fact last)
    show "list_all is_finite (data ?y)" by (fact fin)
  qed
qed

theorem generate_real_data_positive_witness:
  "(0::int) < 1
   \<and> (\<exists>y. generate_real_data sample_variates 1 0 = Inr (y, 30)
          \<and> shape y = [1, 30, 1]
          \<and> length (data y) = 30
          \<and> item y [0, 2, 0] = Finite (sin (200 / 29) + 1 / 10)
          \<and> list_all is_finite (data y))"
proof -
  from generate_real_data_positive [of 1 sample_variates 0]
  obtain y where y: "generate_real_data sample_variates 1 0 = Inr (y, 30)"
      "shape y = [1, 30, 1]" "length (data y) = 30"
      "\<forall>i j. i < nat 1 \<and> j < 30 \<longrightarrow>
         item y [i, j, 0] =
           Finite (sin (100 * real (i * 30 + j) / real (nat 1 * 30 - 1))
                   + (0 + 0.5 * sample_variates (0 + (i * 30 + j))))"
      "list_all is_finite (data y)"
    by auto
  from y(4) have "item y [0, 2, 0] = Finite (sin (200 / 29) + 1 / 10)"
    by (simp add: sample_variates_def)
  with y show ?thesis by auto
qed

text \<open>
  C5 (as amended).  A strictly negative \<open>n_samples\<close> makes both synthesizers fail with the
  ValueError that \<open>np.linspace\<close> raises for a negative number of samples.  (With
  \<open>n_samples = 0\<close> neither fails: see the counterexample.)
\<close>

theorem synthesizers_negative_fail:
  "n < 0 \<Longrightarrow>
     generate_real_data z n pos = Inl ValueError
     \<and> generate_rule_based_data z n pos = Inl ValueError"
  by (simp add: generate_real_data_negative generate_rule_based_data_negative)

theorem synthesizers_negative_fail_witness:
  "(-1::int) < 0
   \<and> generate_real_data sample_variates (-1) 0 = Inl ValueError
   \<and> generate_rule_based_data sample_variates (-1) 0 = Inl ValueError"
  using synthesizers_negative_fail [of "-1" sample_variates 0] by simp

theorem synthesizers_nonpositive_counterexample:
  "(0::int) \<le> 0
   \<and> generate_real_data sample_variates 0 0 = Inr (\<lparr>shape = [0, 30, 1], data = []\<rparr>, 0)
   \<and> generate_rule_based_data sample_variates 0 0 = Inr (\<lparr>shape = [0, 30, 1], data = []\<rparr>, 0)"
  by (simp add: generate_real_data_value generate_rule_based_data_value)

text \<open>
  C10.  With \<open>n_samples = 0\<close> both synthesizers return the empty array of shape
  \<open>(0, 30, 1)\<close> and consume no variate; a synthesizer fails exactly when \<open>n_samples\<close> is
  strictly negative.
\<close>

theorem synthesizers_zero_samples:
  "generate_real_data z 0 pos = Inr (\<lparr>shape = [0, 30, 1], data = []\<rparr>, pos)
   \<and> generate_rule_based_data z 0 pos = Inr (\<lparr>shape = [0, 30, 1], data = []\<rparr>, pos)
   \<and> ((\<exists>e. generate_real_data z n pos = Inl e) = (n < 0))
   \<and> ((\<exists>e. generate_rule_based_data z n pos = Inl e) = (n < 0))"
proof -
  have "(\<exists>e. generate_real_data z n pos = Inl e) = (n < 0)"
    by (cases "n < 0") (simp_all add: generate_real_data_negative generate_real_data_value)
  moreover have "(\<exists>e. generate_rule_based_data z n pos = Inl e) = (n < 0)"
    by (cases "n < 0")
      (simp_all add: generate_rule_based_data_negative generate_rule_based_data_value)
  ultimately show ?thesis
    by (simp add: generate_real_data_value generate_rule_based_data_value)
qed

section \<open>Properties of the VAE loss\<close>

lemma kl_row_nonpos:
  fixes lv m :: "real list"
  shows "sum_list (map2 (-) (map2 (-) (map ((+) 1) lv) (map (\<lambda>x. x * x) m)) (map exp lv)) \<le> 0"
proof (rule sum_list_nonpos)
  fix x
  assume "x \<in> set (map2 (-) (map2 (-) (map ((+) 1) lv) (map (\<lambda>x. x * x) m)) (map exp lv))"
  then obtain i where "x = 1 + lv ! i - m ! i * m ! i - exp (lv ! i)"
    by (auto simp: in_set_conv_nth)
  moreover have "1 + lv ! i \<le> exp (lv ! i)" by (rule exp_ge_add_one_self)
  moreover have "0 \<le> m ! i * m ! i" by simp
  ultimately show "x \<le> 0" by linarith
qed

lemma kl_row_sum:
  fixes lv m :: "real list"
  assumes "length lv = length m"
  shows "sum_list (map2 (-) (map2 (-) (map ((+) 1) lv) (map (\<lambda>x. x * x) m)) (map exp lv))
           = (\<Sum>j<length m. 1 + lv ! j - (m ! j)\<^sup>2 - exp (lv ! j))"
  using assms by (simp add: sum_list_sum_nth atLeast0LessThan power2_eq_square)

lemma kl_loss_rows:
  "kl_loss zm zlv =
     map2 (\<lambda>m lv. - 0.5 * sum_list (map2 (-) (map2 (-) (map ((+) 1) lv) (map (\<lambda>x. x * x) m))
                                       (map exp lv))) zm zlv"
  by (rule nth_equalityI)
    (simp_all add: kl_loss_def K_sum_last_def tensor_sub_def scalar_plus_def K_square_def
      K_exp_def)

lemma kl_loss_nth:
  assumes "b < length zm" "length zlv = length zm" "length (zlv ! b) = length (zm ! b)"
  shows "kl_loss zm zlv ! b =
           - 0.5 * (\<Sum>j<length (zm ! b). 1 + zlv ! b ! j - (zm ! b ! j)\<^sup>2 - exp (zlv ! b ! j))"
  using assms by (simp add: kl_loss_rows kl_row_sum)

text \<open>
  C8.  Every per-sample KL term is non-negative, whatever the mean and the log-variance
  are; for one sample with mean \<open>m\<close> and log-variance \<open>lv\<close> the term is
  \<open>-0.5 * \<Sum>j (1 + lv j - (m j)\<^sup>2 - exp (lv j))\<close>.
\<close>

theorem kl_loss_nonnegative:
  assumes "length lv = length m"
  shows "kl_loss [m] [lv] = [- 0.5 * (\<Sum>j<length m. 1 + lv ! j - (m ! j)\<^sup>2 - exp (lv ! j))]
         \<and> 0 \<le> - 0.5 * (\<Sum>j<length m. 1 + lv ! j - (m ! j)\<^sup>2 - exp (lv ! j))
         \<and> list_all (\<lambda>k. 0 \<le> k) (kl_loss z_mean z_log_var)"
proof -
  have one: "kl_loss [m] [lv] = [- 0.5 * (\<Sum>j<length m. 1 + lv ! j - (m ! j)\<^sup>2 - exp (lv ! j))]"
    using assms by (simp add: kl_loss_rows kl_row_sum)
  have "(\<Sum>j<length m. 1 + lv ! j - (m ! j)\<^sup>2 - exp (lv ! j)) \<le> 0"
    using kl_row_nonpos [of lv m] assms by (simp add: kl_row_sum)
  then have two: "0 \<le> - 0.5 * (\<Sum>j<length m. 1 + lv ! j - (m ! j)\<^sup>2 - exp (lv ! j))"
    by simp
  have three: "list_all (\<lambda>k. 0 \<le> k) (kl_loss z_mean z_log_var)"
    using kl_row_nonpos by (auto simp: kl_loss_rows list_all_length)
  from one two three show ?thesis by blast
qed

theorem kl_loss_nonnegative_witness:
  "length [0, 0 :: real] = length [1, 2 :: real]
   \<and> kl_loss [[1, 2]] [[0, 0]] = [5 / 2]
   \<and> list_all (\<lambda>k. 0 \<le> k) (kl_loss [[1, 2], [0, 3]] [[0, 0], [1, - 1]])"
  using kl_loss_nonnegative [of "[0, 0]" "[1, 2]" "[[1, 2], [0, 3]]" "[[0, 0], [1, - 1]]"]
  by (simp add: lessThan_Suc eval_nat_numeral)

text \<open>
  C3.  For a non-empty batch of \<open>B\<close> samples, with the mean and the log-variance of shape
  \<open>(B, L)\<close> and \<open>N\<close> entries in the flattened input and in the flattened output, the VAE
  loss is the batch mean of: the mean squared error between flattened input and flattened
  output times \<open>30 * 1\<close>, plus the sample's KL term.  It is all that training minimises:
  no loss is compiled and no target is passed.
\<close>

theorem vae_loss_formula:
  assumes "0 < B" "length z_mean = B" "length z_log_var = B"
    and "\<forall>b<B. length (z_mean ! b) = L \<and> length (z_log_var ! b) = L"
    and "length (K_flatten inputs) = N" "length (K_flatten outputs) = N"
  shows "vae_loss inputs outputs z_mean z_log_var =
           (\<Sum>b<B. (\<Sum>i<N. (K_flatten outputs ! i - K_flatten inputs ! i)\<^sup>2) / real N * real (30 * 1)
                   + (- 0.5 * (\<Sum>j<L. 1 + z_log_var ! b ! j - (z_mean ! b ! j)\<^sup>2
                                      - exp (z_log_var ! b ! j))))
           / real B
         \<and> vae_objective inputs outputs z_mean z_log_var
             = vae_loss inputs outputs z_mean z_log_var"
proof -
  let ?fi = "K_flatten inputs" and ?fo = "K_flatten outputs"
  let ?kl = "kl_loss z_mean z_log_var"
  have mse: "mean_squared_error ?fi ?fo = (\<Sum>i<N. (?fo ! i - ?fi ! i)\<^sup>2) / real N"
    using assms(5,6)
    by (simp add: mean_squared_error_def K_mean_def sum_list_sum_nth atLeast0LessThan
        power2_eq_square)
  have rec: "reconstruction_loss inputs outputs
               = (\<Sum>i<N. (?fo ! i - ?fi ! i)\<^sup>2) / real N * real (30 * 1)"
    by (simp add: reconstruction_loss_def mse input_shape_def)
  have len: "length ?kl = B"
    using assms(2,3) by (simp add: kl_loss_rows)
  have kl: "?kl ! b = - 0.5 * (\<Sum>j<L. 1 + z_log_var ! b ! j - (z_mean ! b ! j)\<^sup>2
                                      - exp (z_log_var ! b ! j))" if "b < B" for b
    using that assms(2,3,4) kl_loss_nth [of b z_mean z_log_var] by simp
  have "vae_loss inputs outputs z_mean z_log_var
          = (\<Sum>b<B. reconstruction_loss inputs outputs + ?kl ! b) / real B"
    by (simp add: vae_loss_def K_mean_def sum_list_sum_nth atLeast0LessThan len)
  also have "(\<Sum>b<B. reconstruction_loss inputs outputs + ?kl ! b)
          = (\<Sum>b<B. (\<Sum>i<N. (?fo ! i - ?fi ! i)\<^sup>2) / real N * real (30 * 1)
                   + (- 0.5 * (\<Sum>j<L. 1 + z_log_var ! b ! j - (z_mean ! b ! j)\<^sup>2
                                      - exp (z_log_var ! b ! j))))"
    by (rule sum.cong) (simp_all add: rec kl)
  finally have first: "vae_loss inputs outputs z_mean z_log_var =
           (\<Sum>b<B. (\<Sum>i<N. (?fo ! i - ?fi ! i)\<^sup>2) / real N * real (30 * 1)
                   + (- 0.5 * (\<Sum>j<L. 1 + z_log_var ! b ! j - (z_mean ! b ! j)\<^sup>2
                                      - exp (z_log_var ! b ! j))))
           / real B" .
  have second: "vae_objective inputs outputs z_mean z_log_var
                  = vae_loss inputs outputs z_mean z_log_var"
    by (simp add: vae_objective_def training_objective_def)
  from first second show ?thesis by (rule conjI)
qed

lemma concat_replicate_single: "concat (replicate n [x]) = replicate n x"
  by (induction n) simp_all

theorem vae_loss_formula_witness:
  "(0::nat) < 1
   \<and> length [[0, 0 :: real]] = 1 \<and> length [[0, 0 :: real]] = 1
   \<and> length (K_flatten [replicate 30 [1]]) = 30 \<and> length (K_flatten [replicate 30 [0]]) = 30
   \<and> vae_loss [replicate 30 [1]] [replicate 30 [0]] [[0, 0]] [[0, 0]] = 30
   \<and> vae_objective [replicate 30 [1]] [replicate 30 [0]] [[0, 0]] [[0, 0]] = 30"
proof -
  have flat: "K_flatten [replicate 30 [c]] = replicate 30 c" for c :: real
    by (simp add: K_flatten_def concat_replicate_single)
  have rows: "\<forall>b<1::nat. length ([[0, 0 :: real]] ! b) = 2 \<and> length ([[0, 0 :: real]] ! b) = 2"
    by simp
  have lens: "length (K_flatten [replicate 30 [1::real]]) = 30"
      "length (K_flatten [replicate 30 [0::real]]) = 30"
    by (simp_all add: flat)
  have mse: "(\<Sum>i<30::nat. (K_flatten [replicate 30 [0::real]] ! i
                           - K_flatten [replicate 30 [1]] ! i)\<^sup>2) = 30"
    by (simp add: flat)
  have kl: "(\<Sum>j<2::nat. 1 + [0, 0 :: real] ! j - ([0, 0] ! j)\<^sup>2 - exp ([0, 0] ! j)) = 0"
    by (simp add: lessThan_Suc numeral_2_eq_2)
  from vae_loss_formula [of 1 "[[0, 0]]" "[[0, 0]]" 2 "[replicate 30 [1]]" 30
      "[replicate 30 [0]]", OF _ _ _ rows lens]
  have "vae_loss [replicate 30 [1]] [replicate 30 [0]] [[0, 0]] [[0, 0]] = 30"
    and "vae_objective [replicate 30 [1]] [replicate 30 [0]] [[0, 0]] [[0, 0]]
           = vae_loss [replicate 30 [1]] [replicate 30 [0]] [[0, 0]] [[0, 0]]"
    by (simp_all add: mse kl)
  with lens show ?thesis by simp
qed

section \<open>Shapes through the VAE\<close>

lemma encoder_shape: "encoder [[B, 30, 1]] = Inr [[B, 10], [B, 10]]"
  by (simp add: encoder_def call_model_def build_encoder_def input_shape_def latent_dim_def)

lemma decoder_shape: "decoder [[B, 10]] = Inr [[B, 30, 1]]"
  by (simp add: decoder_def and_then_def call_model_def build_decoder_def input_shape_def
      latent_dim_def)

lemma decoder_two_tensors: "decoder [s1, s2] = Inl ShapeMismatch"
  by (simp add: decoder_def and_then_def call_model_def build_decoder_def input_shape_def
      latent_dim_def)

text \<open>
  C9 (as amended).  The encoder maps a batch of shape \<open>(B, 30, 1)\<close> to a mean and a
  log-variance of shape \<open>(B, 10)\<close> each; the decoder maps a latent batch of shape \<open>(B, 10)\<close>
  to \<open>(B, 30, 1)\<close>; and the composition the VAE is built from, decoder after sampling after
  encoder, gives an output of the shape \<open>(B, 30, 1)\<close> of its input.
\<close>

theorem vae_round_trip_shape:
  "encoder [[B, 30, 1]] = Inr [[B, 10], [B, 10]]
   \<and> sampling [[B, 10], [B, 10]] = Inr [B, 10]
   \<and> decoder [[B, 10]] = Inr [[B, 30, 1]]
   \<and> and_then (encoder [[B, 30, 1]]) (\<lambda>zs. and_then (sampling zs) (\<lambda>z. decoder [z]))
       = Inr [[B, 30, 1]]
   \<and> vae [[B, 30, 1]] = Inr [[B, 30, 1]]"
proof -
  have e: "encoder [[B, 30, 1]] = Inr [[B, 10], [B, 10]]" by (rule encoder_shape)
  have s: "sampling [[B, 10], [B, 10]] = Inr [B, 10]" by (simp add: sampling_def)
  have d: "decoder [[B, 10]] = Inr [[B, 30, 1]]" by (rule decoder_shape)
  have c: "and_then (encoder [[B, 30, 1]]) (\<lambda>zs. and_then (sampling zs) (\<lambda>z. decoder [z]))
             = Inr [[B, 30, 1]]"
    by (simp only: e s d and_then_def sum.case)
  have "vae [[B, 30, 1]]
          = and_then (encoder [[B, 30, 1]]) (\<lambda>zs. and_then (sampling zs) (\<lambda>z. decoder [z]))"
    by (simp add: vae_def input_shape_def)
  then have v: "vae [[B, 30, 1]] = Inr [[B, 30, 1]]"
    by (simp only: c)
  from e s d c v show ?thesis by blast
qed

text \<open>
  The composition encoder after decoder after encoder, on a batch of two samples: the
  decoder rejects the encoder's two outputs, and fed the mean alone, the last encoder
  returns two tensors of shape \<open>(2, 10)\<close>, not one of shape \<open>(2, 30, 1)\<close>.
\<close>

theorem encoder_decoder_encoder_counterexample:
  "and_then (and_then (encoder [[2, 30, 1]]) decoder) encoder = Inl ShapeMismatch
   \<and> encoder [[2, 30, 1]] = Inr [[2, 10], [2, 10]]
   \<and> and_then (decoder [[2, 10]]) encoder = Inr [[2, 10], [2, 10]]
   \<and> and_then (decoder [[2, 10]]) encoder \<noteq> Inr [[2, 30, 1]]"
proof -
  have e: "encoder [[2, 30, 1]] = Inr [[2, 10], [2, 10]]" by (rule encoder_shape)
  have d: "decoder [[2, 10]] = Inr [[2, 30, 1]]" by (rule decoder_shape)
  have one: "and_then (and_then (encoder [[2, 30, 1]]) decoder) encoder = Inl ShapeMismatch"
    by (simp only: e and_then_def sum.case decoder_two_tensors)
  have two: "and_then (decoder [[2, 10]]) encoder = Inr [[2, 10], [2, 10]]"
    by (simp only: e d and_then_def sum.case)
  have three: "and_then (decoder [[2, 10]]) encoder \<noteq> Inr [[2, 30, 1]]"
    unfolding two by simp
  from one e two three show ?thesis by blast
qed

section \<open>Properties of the GAN training loop\<close>

lemma random_normal_batch:
  "0 \<le> bs \<Longrightarrow>
     random_normal z 0 1 [bs, 30, 1] p =
       Inr (\<lparr>shape = [nat bs, 30, 1], data = map (\<lambda>k. Finite (z (p + k))) [0..<nat bs * 30]\<rparr>,
            p + nat bs * 30)"
  by (simp add: random_normal_def Let_def)

lemma np_ones_labels:
  "0 \<le> bs \<Longrightarrow>
     np_ones [bs, 1] = Inr \<lparr>shape = [nat bs, 1], data = replicate (nat bs) (Finite 1)\<rparr>"
  by (simp add: np_ones_def np_full_def)

lemma np_zeros_labels:
  "0 \<le> bs \<Longrightarrow>
     np_zeros [bs, 1] = Inr \<lparr>shape = [nat bs, 1], data = replicate (nat bs) (Finite 0)\<rparr>"
  by (simp add: np_zeros_def np_full_def)

lemma as_built_notebook_models: "as_built (notebook_models g0 d0)"
  by (simp add: as_built_def notebook_models_def compile_def trainable_def Let_def)

lemma as_builtD:
  assumes "as_built s"
  obtains dc gc where "discriminator_compiled s = Some dc" "collected dc = [Discriminator]"
    "metric_names dc = [''accuracy'']" "gan_compiled s = Some gc" "collected gc = [Generator]"
    "metric_names gc = []"
  using assms by (auto simp: as_built_def split: option.splits)

lemma discriminator_train_on_batch_value:
  assumes "discriminator_compiled s = Some dc" "collected dc = [Discriminator]"
  shows "discriminator_train_on_batch be s x y =
     (let r = gradient_step be [Discriminator] [Discriminator] (generator_weights s)
                (discriminator_weights s) (optimizer_slots dc) x y
      in Inr (s\<lparr>discriminator_weights := discriminator_after r,
                 discriminator_compiled :=
                   Some (dc\<lparr>optimizer_slots := slots_after r, iterations := iterations dc + 1\<rparr>)\<rparr>,
              loss r # map (metric r) (metric_names dc)))"
  using assms by (simp add: discriminator_train_on_batch_def train_on_batch_def Let_def)

lemma gan_train_on_batch_value:
  assumes "gan_compiled s = Some gc" "collected gc = [Generator]"
  shows "gan_train_on_batch be s x y =
     (let r = gradient_step be [Generator, Discriminator] [Generator] (generator_weights s)
                (discriminator_weights s) (optimizer_slots gc) x y
      in Inr (s\<lparr>generator_weights := generator_after r,
                 gan_compiled :=
                   Some (gc\<lparr>optimizer_slots := slots_after r, iterations := iterations gc + 1\<rparr>)\<rparr>,
              loss r # map (metric r) (metric_names gc)))"
  using assms by (simp add: gan_train_on_batch_def train_on_batch_def Let_def)

lemma generator_predict_batch:
  "0 < n \<Longrightarrow> generator_predict be w \<lparr>shape = n # ds, data = xs\<rparr>
     = Inr (predict be w \<lparr>shape = n # ds, data = xs\<rparr>)"
  by (simp add: generator_predict_def)

lemma train_gan_step_empty_batch:
  "train_gan_step be z 0 s = Inl ValueError"
  by (simp add: train_gan_step_def generate_real_data_value random_normal_def
      generator_predict_def and_then_def Let_def)

lemma train_gan_step_negative_batch:
  "bs < 0 \<Longrightarrow> train_gan_step be z bs s = Inl ValueError"
  by (simp add: train_gan_step_def generate_real_data_negative and_then_def)

lemma train_gan_step_value:
  assumes bs: "0 < bs"
    and dc: "discriminator_compiled s = Some dc" "collected dc = [Discriminator]"
    and gc: "gan_compiled s = Some gc" "collected gc = [Generator]"
  shows "train_gan_step be z bs s =
     (let N = nat bs * 30; p0 = np_random s; gw = generator_weights s;
          real_data = \<lparr>shape = [nat bs, 30, 1],
                       data = map (\<lambda>k. Finite (sin (ramp N k) + 0.5 * z (p0 + k))) [0..<N]\<rparr>;
          noise = \<lparr>shape = [nat bs, 30, 1],
                   data = map (\<lambda>k. Finite (z (p0 + N + k))) [0..<N]\<rparr>;
          noise' = \<lparr>shape = [nat bs, 30, 1],
                    data = map (\<lambda>k. Finite (z (p0 + N + N + k))) [0..<N]\<rparr>;
          r1 = gradient_step be [Discriminator] [Discriminator] gw (discriminator_weights s)
                 (optimizer_slots dc) real_data
                 \<lparr>shape = [nat bs, 1], data = replicate (nat bs) (Finite 1)\<rparr>;
          r2 = gradient_step be [Discriminator] [Discriminator] gw (discriminator_after r1)
                 (slots_after r1) (predict be gw noise)
                 \<lparr>shape = [nat bs, 1], data = replicate (nat bs) (Finite 0)\<rparr>;
          r3 = gradient_step be [Generator, Discriminator] [Generator] gw
                 (discriminator_after r2) (optimizer_slots gc) noise'
                 \<lparr>shape = [nat bs], data = replicate (nat bs) (Finite 1)\<rparr>
      in Inr (s\<lparr>generator_weights := generator_after r3,
                 discriminator_weights := discriminator_after r2,
                 discriminator_compiled :=
                   Some (dc\<lparr>optimizer_slots := slots_after r2, iterations := iterations dc + 2\<rparr>),
                 gan_compiled :=
                   Some (gc\<lparr>optimizer_slots := slots_after r3, iterations := iterations gc + 1\<rparr>),
                 np_random := p0 + N + N + N\<rparr>,
              map ((*) 0.5) (map2 (+) (loss r1 # map (metric r1) (metric_names dc))
                                      (loss r2 # map (metric r2) (metric_names dc))),
              loss r3 # map (metric r3) (metric_names gc)))"
  unfolding train_gan_step_def
  using bs
  by (simp add: generate_real_data_value random_normal_batch np_ones_labels np_zeros_labels
      generator_predict_batch and_then_def ones_vector_def Let_def
      discriminator_train_on_batch_value [where dc = dc]
      discriminator_train_on_batch_value
        [where dc = "dc\<lparr>optimizer_slots := x, iterations := iterations dc + 1\<rparr>" for x]
      gan_train_on_batch_value [where gc = gc] dc gc add.assoc)

lemma as_built_step:
  assumes "discriminator_compiled s = Some dc" "collected dc = [Discriminator]"
    "metric_names dc = [''accuracy'']" "gan_compiled s = Some gc" "collected gc = [Generator]"
    "metric_names gc = []"
  shows "as_built
     (s\<lparr>generator_weights := g, discriminator_weights := d,
        discriminator_compiled := Some (dc\<lparr>optimizer_slots := a, iterations := i\<rparr>),
        gan_compiled := Some (gc\<lparr>optimizer_slots := b, iterations := j\<rparr>),
        np_random := p\<rparr>)"
  using assms by (simp add: as_built_def)

text \<open>
  C2.  From a session configured as the notebook configures it, and with a positive batch
  size (with none the prediction of line 101 raises, with a negative one the construction
  of the real batch), an iteration of the loop does this and nothing else to
  the networks: the real batch and a noise batch are drawn; one optimizer step \<open>r1\<close> of the
  discriminator model on the real batch with labels all 1; one step \<open>r2\<close>, from the weights
  \<open>r1\<close> left, on the generator's output for the noise with labels all 0; \<open>d_loss\<close> is half
  the sum of the two results, loss and accuracy; then one step \<open>r3\<close> of the model \<open>gan\<close>,
  training the generator only, on a second noise batch drawn after the first, with labels
  all 1.  The status line of every hundredth epoch reports these numbers.
\<close>

theorem train_gan_iteration:
  assumes "as_built s" "0 < bs"
  shows "\<exists>real_data noise noise' p1 p2 p3 dc gc r1 r2 r3 s'.
      discriminator_compiled s = Some dc \<and> gan_compiled s = Some gc
    \<and> generate_real_data z bs (np_random s) = Inr (real_data, p1)
    \<and> random_normal z 0 1 [bs, 30, 1] p1 = Inr (noise, p2)
    \<and> random_normal z 0 1 [bs, 30, 1] p2 = Inr (noise', p3)
    \<and> p2 = p1 + nat bs * 30
    \<and> data noise' = map (\<lambda>k. Finite (z (p2 + k))) [0..<nat bs * 30]
    \<and> r1 = gradient_step be [Discriminator] [Discriminator] (generator_weights s)
             (discriminator_weights s) (optimizer_slots dc) real_data
             \<lparr>shape = [nat bs, 1], data = replicate (nat bs) (Finite 1)\<rparr>
    \<and> generator_predict be (generator_weights s) noise
          = Inr (predict be (generator_weights s) noise)
    \<and> r2 = gradient_step be [Discriminator] [Discriminator] (generator_weights s)
             (discriminator_after r1) (slots_after r1) (predict be (generator_weights s) noise)
             \<lparr>shape = [nat bs, 1], data = replicate (nat bs) (Finite 0)\<rparr>
    \<and> r3 = gradient_step be [Generator, Discriminator] [Generator] (generator_weights s)
             (discriminator_after r2) (optimizer_slots gc) noise'
             \<lparr>shape = [nat bs], data = replicate (nat bs) (Finite 1)\<rparr>
    \<and> train_gan_step be z bs s =
          Inr (s', [0.5 * (loss r1 + loss r2),
                    0.5 * (metric r1 ''accuracy'' + metric r2 ''accuracy'')],
               [loss r3])
    \<and> discriminator_weights s' = discriminator_after r2
    \<and> generator_weights s' = generator_after r3
    \<and> steps_taken (discriminator_compiled s') = steps_taken (discriminator_compiled s) + 2
    \<and> steps_taken (gan_compiled s') = steps_taken (gan_compiled s) + 1
    \<and> as_built s'
    \<and> train_gan_body be z bs epoch s =
          Inr (if epoch mod 100 = 0
               then s'\<lparr>stdout := stdout s' @
                      [(epoch, 0.5 * (loss r1 + loss r2),
                        100 * (0.5 * (metric r1 ''accuracy'' + metric r2 ''accuracy'')),
                        [loss r3])]\<rparr>
               else s')"
proof -
  from \<open>as_built s\<close> obtain dc gc where
    c: "discriminator_compiled s = Some dc" "collected dc = [Discriminator]"
       "metric_names dc = [''accuracy'']" "gan_compiled s = Some gc" "collected gc = [Generator]"
       "metric_names gc = []"
    by (rule as_builtD)
  let ?N = "nat bs * 30" and ?p0 = "np_random s" and ?gw = "generator_weights s"
  let ?real = "\<lparr>shape = [nat bs, 30, 1],
      data = map (\<lambda>k. Finite (sin (ramp ?N k) + 0.5 * z (?p0 + k))) [0..<?N]\<rparr>"
  let ?noise = "\<lparr>shape = [nat bs, 30, 1], data = map (\<lambda>k. Finite (z (?p0 + ?N + k))) [0..<?N]\<rparr>"
  let ?noise' = "\<lparr>shape = [nat bs, 30, 1],
      data = map (\<lambda>k. Finite (z (?p0 + ?N + ?N + k))) [0..<?N]\<rparr>"
  let ?r1 = "gradient_step be [Discriminator] [Discriminator] ?gw (discriminator_weights s)
      (optimizer_slots dc) ?real \<lparr>shape = [nat bs, 1], data = replicate (nat bs) (Finite 1)\<rparr>"
  let ?r2 = "gradient_step be [Discriminator] [Discriminator] ?gw (discriminator_after ?r1)
      (slots_after ?r1) (predict be ?gw ?noise)
      \<lparr>shape = [nat bs, 1], data = replicate (nat bs) (Finite 0)\<rparr>"
  let ?r3 = "gradient_step be [Generator, Discriminator] [Generator] ?gw
      (discriminator_after ?r2) (optimizer_slots gc) ?noise'
      \<lparr>shape = [nat bs], data = replicate (nat bs) (Finite 1)\<rparr>"
  let ?s' = "s\<lparr>generator_weights := generator_after ?r3,
      discriminator_weights := discriminator_after ?r2,
      discriminator_compiled :=
        Some (dc\<lparr>optimizer_slots := slots_after ?r2, iterations := iterations dc + 2\<rparr>),
      gan_compiled :=
        Some (gc\<lparr>optimizer_slots := slots_after ?r3, iterations := iterations gc + 1\<rparr>),
      np_random := ?p0 + ?N + ?N + ?N\<rparr>"
  have step: "train_gan_step be z bs s =
      Inr (?s', [0.5 * (loss ?r1 + loss ?r2),
                 0.5 * (metric ?r1 ''accuracy'' + metric ?r2 ''accuracy'')], [loss ?r3])"
    using train_gan_step_value [OF \<open>0 < bs\<close> c(1,2,4,5), of be z] c(3,6)
    by (simp add: Let_def)
  have body: "train_gan_body be z bs epoch s =
      Inr (if epoch mod 100 = 0
           then ?s'\<lparr>stdout := stdout ?s' @
                  [(epoch, 0.5 * (loss ?r1 + loss ?r2),
                    100 * (0.5 * (metric ?r1 ''accuracy'' + metric ?r2 ''accuracy'')),
                    [loss ?r3])]\<rparr>
           else ?s')"
    unfolding train_gan_body_def step and_then_def train_gan_report_def by simp
  have built: "as_built ?s'"
    using c by (rule as_built_step)
  from \<open>0 < bs\<close> have nonneg: "0 \<le> bs" and samples: "0 < nat bs" by simp_all
  show ?thesis
  proof (intro exI conjI)
    show "discriminator_compiled s = Some dc" by (fact c(1))
    show "gan_compiled s = Some gc" by (fact c(4))
    show "generate_real_data z bs ?p0 = Inr (?real, ?p0 + ?N)"
      using nonneg by (simp add: generate_real_data_value)
    show "random_normal z 0 1 [bs, 30, 1] (?p0 + ?N) = Inr (?noise, ?p0 + ?N + ?N)"
      using nonneg by (simp add: random_normal_batch)
    show "random_normal z 0 1 [bs, 30, 1] (?p0 + ?N + ?N) = Inr (?noise', ?p0 + ?N + ?N + ?N)"
      using nonneg by (simp add: random_normal_batch)
    show "?p0 + ?N + ?N = ?p0 + ?N + nat bs * 30" by simp
    show "data ?noise' = map (\<lambda>k. Finite (z (?p0 + ?N + ?N + k))) [0..<nat bs * 30]" by simp
    show "?r1 = ?r1" by (rule refl)
    show "generator_predict be ?gw ?noise = Inr (predict be ?gw ?noise)"
      using samples by (rule generator_predict_batch)
    show "?r2 = ?r2" "?r3 = ?r3" by (rule refl)+
    show "train_gan_step be z bs s =
      Inr (?s', [0.5 * (loss ?r1 + loss ?r2),
                 0.5 * (metric ?r1 ''accuracy'' + metric ?r2 ''accuracy'')], [loss ?r3])"
      by (fact step)
    show "discriminator_weights ?s' = discriminator_after ?r2" by simp
    show "generator_weights ?s' = generator_after ?r3" by simp
    show "steps_taken (discriminator_compiled ?s') = steps_taken (discriminator_compiled s) + 2"
      by (simp add: steps_taken_def c)
    show "steps_taken (gan_compiled ?s') = steps_taken (gan_compiled s) + 1"
      by (simp add: steps_taken_def c)
    show "as_built ?s'" by (fact built)
    show "train_gan_body be z bs epoch s =
      Inr (if epoch mod 100 = 0
           then ?s'\<lparr>stdout := stdout ?s' @
                  [(epoch, 0.5 * (loss ?r1 + loss ?r2),
                    100 * (0.5 * (metric ?r1 ''accuracy'' + metric ?r2 ''accuracy'')),
                    [loss ?r3])]\<rparr>
           else ?s')"
      by (fact body)
  qed
qed

theorem train_gan_iteration_witness:
  "as_built (notebook_models [0] [0]) \<and> (0::int) < 1
   \<and> (\<exists>s'. train_gan_step sample_backend sample_variates 1 (notebook_models [0] [0])
               = Inr (s', [1, 1 / 2], [1])
          \<and> discriminator_weights s' = [2]
          \<and> generator_weights s' = [1]
          \<and> steps_taken (discriminator_compiled s') = 2
          \<and> steps_taken (gan_compiled s') = 1
          \<and> train_gan_body sample_backend sample_variates 1 0 (notebook_models [0] [0])
               = Inr (s'\<lparr>stdout := stdout s' @ [(0, 1, 50, [1])]\<rparr>))"
proof -
  have b: "as_built (notebook_models [0] [0])" by (rule as_built_notebook_models)
  have w: "generator_weights (notebook_models [0] [0]) = [0]"
      "discriminator_weights (notebook_models [0] [0]) = [0]"
      "steps_taken (discriminator_compiled (notebook_models [0] [0])) = 0"
      "steps_taken (gan_compiled (notebook_models [0] [0])) = 0"
    by (simp_all add: notebook_models_def Let_def steps_taken_def compile_def)
  have g: "gradient_step sample_backend n t gw dw sl x y =
      \<lparr>generator_after = map ((+) 1) gw, discriminator_after = map ((+) 1) dw,
       slots_after = sl, loss = 1, metric = (\<lambda>m. 1 / 2)\<rparr>" for n t gw dw sl x y
    by (simp add: sample_backend_def)
  from train_gan_iteration [OF b, where bs = 1 and z = sample_variates and be = sample_backend
      and epoch = 0]
  obtain s' where
    "train_gan_step sample_backend sample_variates 1 (notebook_models [0] [0])
       = Inr (s', [1, 1 / 2], [1])"
    "discriminator_weights s' = [2]" "generator_weights s' = [1]"
    "steps_taken (discriminator_compiled s') = 2" "steps_taken (gan_compiled s') = 1"
    "train_gan_body sample_backend sample_variates 1 0 (notebook_models [0] [0])
       = Inr (s'\<lparr>stdout := stdout s' @ [(0, 1, 50, [1])]\<rparr>)"
    by (auto simp: g w)
  with b show ?thesis by auto
qed

text \<open>
  C4.  The notebook's cells leave a session configured so that the model \<open>gan\<close> trains the
  generator only; and from every such session, whatever the weights, the noise batch and
  the labels are, \<open>gan.train_on_batch\<close> succeeds, assigns the generator the weights of the
  optimizer step and leaves every weight of the discriminator as it was.
\<close>

theorem gan_update_keeps_discriminator:
  assumes "as_built s"
  shows "as_built (notebook_models g0 d0)
    \<and> (\<exists>gc s' g_loss.
          gan_compiled s = Some gc
        \<and> gan_train_on_batch be s noise valid_y = Inr (s', g_loss)
        \<and> discriminator_weights s' = discriminator_weights s
        \<and> generator_weights s' =
            generator_after (gradient_step be [Generator, Discriminator] [Generator]
              (generator_weights s) (discriminator_weights s) (optimizer_slots gc) noise valid_y))"
proof -
  from assms obtain gc where gc: "gan_compiled s = Some gc" "collected gc = [Generator]"
    by (rule as_builtD)
  then show ?thesis
    by (simp add: as_built_notebook_models gan_train_on_batch_value Let_def)
qed

theorem gan_update_keeps_discriminator_witness:
  "as_built (notebook_models [1, 2] [3, 4])
   \<and> discriminator_after (gradient_step sample_backend [Generator, Discriminator] [Generator]
        [1, 2] [3, 4] [] (ones_vector 2) (ones_vector 2)) = [4, 5]
   \<and> (\<exists>s' g_loss.
         gan_train_on_batch sample_backend (notebook_models [1, 2] [3, 4]) (ones_vector 2)
           (ones_vector 2) = Inr (s', g_loss)
       \<and> discriminator_weights s' = [3, 4]
       \<and> generator_weights s' = [2, 3])"
proof -
  have b: "as_built (notebook_models [1, 2] [3, 4])" by (rule as_built_notebook_models)
  have w: "generator_weights (notebook_models [1, 2] [3, 4]) = [1, 2]"
      "discriminator_weights (notebook_models [1, 2] [3, 4]) = [3, 4]"
    by (simp_all add: notebook_models_def Let_def)
  have g: "gradient_step sample_backend n t gw dw sl x y =
      \<lparr>generator_after = map ((+) 1) gw, discriminator_after = map ((+) 1) dw,
       slots_after = sl, loss = 1, metric = (\<lambda>m. 1 / 2)\<rparr>" for n t gw dw sl x y
    by (simp add: sample_backend_def)
  from gan_update_keeps_discriminator [OF b, where be = sample_backend
      and noise = "ones_vector 2" and valid_y = "ones_vector 2" and ?g0.0 = "[]" and ?d0.0 = "[]"]
  obtain s' g_loss where
    "gan_train_on_batch sample_backend (notebook_models [1, 2] [3, 4]) (ones_vector 2)
       (ones_vector 2) = Inr (s', g_loss)"
    "discriminator_weights s' = [3, 4]" "generator_weights s' = [2, 3]"
    by (auto simp: g w)
  with b show ?thesis by (auto simp: g)
qed

lemma train_gan_body_steps:
  assumes "as_built s" "0 < bs"
  shows "\<exists>s'. train_gan_body be z bs epoch s = Inr s' \<and> as_built s'
    \<and> steps_taken (gan_compiled s') = steps_taken (gan_compiled s) + 1
    \<and> steps_taken (discriminator_compiled s') = steps_taken (discriminator_compiled s) + 2
    \<and> np_random s' = np_random s + 3 * (nat bs * 30)"
proof -
  from \<open>as_built s\<close> obtain dc gc where
    c: "discriminator_compiled s = Some dc" "collected dc = [Discriminator]"
       "metric_names dc = [''accuracy'']" "gan_compiled s = Some gc" "collected gc = [Generator]"
       "metric_names gc = []"
    by (rule as_builtD)
  show ?thesis
    unfolding train_gan_body_def train_gan_step_value [OF \<open>0 < bs\<close> c(1,2,4,5)]
    using c
    by (simp add: Let_def and_then_def train_gan_report_def as_built_def steps_taken_def)
qed

lemma train_gan_body_negative_batch:
  "bs \<le> 0 \<Longrightarrow> train_gan_body be z bs epoch s = Inl ValueError"
  by (cases "bs = 0")
    (simp_all add: train_gan_body_def and_then_def train_gan_step_empty_batch
      train_gan_step_negative_batch)

text \<open>The sessions an execution of the loop goes through, one after each epoch.\<close>

lemma train_gan_loop_trace:
  assumes "as_built s" "0 < bs"
  shows "\<exists>f. f 0 = s
    \<and> (\<forall>k<length es. train_gan_body be z bs (es ! k) (f k) = Inr (f (Suc k)))
    \<and> train_gan_loop be z bs es s = Inr (f (length es))
    \<and> (\<forall>k\<le>length es. as_built (f k)
          \<and> steps_taken (gan_compiled (f k)) = steps_taken (gan_compiled s) + k
          \<and> steps_taken (discriminator_compiled (f k)) =
              steps_taken (discriminator_compiled s) + 2 * k
          \<and> np_random (f k) = np_random s + k * (3 * (nat bs * 30)))"
  using assms(1)
proof (induction es arbitrary: s)
  case Nil
  then show ?case
    by (intro exI [of _ "\<lambda>k. s"]) simp
next
  case (Cons e es)
  from train_gan_body_steps [OF Cons.prems \<open>0 < bs\<close>, of be z e]
  obtain s1 where s1: "train_gan_body be z bs e s = Inr s1" "as_built s1"
    "steps_taken (gan_compiled s1) = steps_taken (gan_compiled s) + 1"
    "steps_taken (discriminator_compiled s1) = steps_taken (discriminator_compiled s) + 2"
    "np_random s1 = np_random s + 3 * (nat bs * 30)"
    by blast
  from Cons.IH [OF s1(2)]
  obtain g where g: "g 0 = s1"
    "\<forall>k<length es. train_gan_body be z bs (es ! k) (g k) = Inr (g (Suc k))"
    "train_gan_loop be z bs es s1 = Inr (g (length es))"
    "\<forall>k\<le>length es. as_built (g k)
          \<and> steps_taken (gan_compiled (g k)) = steps_taken (gan_compiled s1) + k
          \<and> steps_taken (discriminator_compiled (g k)) =
              steps_taken (discriminator_compiled s1) + 2 * k
          \<and> np_random (g k) = np_random s1 + k * (3 * (nat bs * 30))"
    by blast
  let ?f = "\<lambda>k. case k of 0 \<Rightarrow> s | Suc j \<Rightarrow> g j"
  have "?f 0 = s" by simp
  moreover have "\<forall>k<length (e # es).
      train_gan_body be z bs ((e # es) ! k) (?f k) = Inr (?f (Suc k))"
  proof (intro allI impI)
    fix k assume "k < length (e # es)"
    then show "train_gan_body be z bs ((e # es) ! k) (?f k) = Inr (?f (Suc k))"
      using s1(1) g(1,2) by (cases k) simp_all
  qed
  moreover have "train_gan_loop be z bs (e # es) s = Inr (?f (length (e # es)))"
    using s1(1) g(3) by simp
  moreover have "\<forall>k\<le>length (e # es). as_built (?f k)
          \<and> steps_taken (gan_compiled (?f k)) = steps_taken (gan_compiled s) + k
          \<and> steps_taken (discriminator_compiled (?f k)) =
              steps_taken (discriminator_compiled s) + 2 * k
          \<and> np_random (?f k) = np_random s + k * (3 * (nat bs * 30))"
  proof (intro allI impI)
    fix k assume k: "k \<le> length (e # es)"
    show "as_built (?f k)
          \<and> steps_taken (gan_compiled (?f k)) = steps_taken (gan_compiled s) + k
          \<and> steps_taken (discriminator_compiled (?f k)) =
              steps_taken (discriminator_compiled s) + 2 * k
          \<and> np_random (?f k) = np_random s + k * (3 * (nat bs * 30))"
    proof (cases k)
      case 0
      with Cons.prems show ?thesis by simp
    next
      case (Suc j)
      with k have "j \<le> length es" by simp
      with g(4) have "as_built (g j)
          \<and> steps_taken (gan_compiled (g j)) = steps_taken (gan_compiled s1) + j
          \<and> steps_taken (discriminator_compiled (g j)) =
              steps_taken (discriminator_compiled s1) + 2 * j
          \<and> np_random (g j) = np_random s1 + j * (3 * (nat bs * 30))"
        by blast
      with Suc s1(3,4,5) show ?thesis by simp
    qed
  qed
  ultimately show ?case by (intro exI [of _ ?f] conjI)
qed

lemma length_py_range: "length (py_range n) = nat n"
  by (simp add: py_range_def)

lemma nth_py_range: "k < nat n \<Longrightarrow> py_range n ! k = int k"
  by (simp add: py_range_def nth_upto)

lemma sample_backend_body:
  assumes "as_built s" "0 < bs" "train_gan_body sample_backend z bs e s = Inr s'"
  shows "generator_weights s' = map ((+) 1) (generator_weights s)
    \<and> discriminator_weights s' = map ((+) 1) (map ((+) 1) (discriminator_weights s))
    \<and> length (stdout s') = length (stdout s) + (if e mod 100 = 0 then 1 else 0)"
proof -
  from \<open>as_built s\<close> obtain dc gc where
    c: "discriminator_compiled s = Some dc" "collected dc = [Discriminator]"
       "metric_names dc = [''accuracy'']" "gan_compiled s = Some gc" "collected gc = [Generator]"
       "metric_names gc = []"
    by (rule as_builtD)
  from assms(3) show ?thesis
    unfolding train_gan_body_def train_gan_step_value [OF \<open>0 < bs\<close> c(1,2,4,5)]
    using c
    by (auto simp: Let_def and_then_def train_gan_report_def sample_backend_def
        split: if_splits)
qed

text \<open>
  C7.  From a session configured as the notebook configures it, and with a positive batch
  size, \<open>train_gan\<close> returns, and what it returns is reached by executing the body of its
  loop once for each epoch \<open>0, 1, ..., epochs - 1\<close> in turn, each execution starting from the
  session the one before left, and by nothing else: there are sessions \<open>f 0, ..., f epochs\<close>,
  the first the one given and the last the one returned, with the body taking \<open>f k\<close> to
  \<open>f (k + 1)\<close> at epoch \<open>k\<close>.  No loss or accuracy decides how often the body runs.  After
  \<open>k\<close> epochs the model \<open>gan\<close> has taken \<open>k\<close> optimizer steps more, the discriminator \<open>2 k\<close>,
  and \<open>3 k\<close> batches of variates were drawn.  The count of epochs is 1000 when the argument
  is left out, and no body runs for a count that is not positive; with \<open>epochs = 0\<close> the
  session given is returned as it is, weights included, whatever the session and the batch
  size.
\<close>

theorem train_gan_runs_all_epochs:
  assumes "as_built s" "0 < default_arg 32 batch_size"
  shows "(\<exists>f. f 0 = s
          \<and> (\<forall>k<nat (default_arg 1000 epochs).
                train_gan_body be z (default_arg 32 batch_size) (int k) (f k) = Inr (f (Suc k)))
          \<and> train_gan be z s epochs batch_size = Inr (f (nat (default_arg 1000 epochs)))
          \<and> (\<forall>k\<le>nat (default_arg 1000 epochs). as_built (f k)
                \<and> steps_taken (gan_compiled (f k)) = steps_taken (gan_compiled s) + k
                \<and> steps_taken (discriminator_compiled (f k)) =
                    steps_taken (discriminator_compiled s) + 2 * k
                \<and> np_random (f k) =
                    np_random s + k * (3 * (nat (default_arg 32 batch_size) * 30))))
         \<and> default_arg 1000 None = 1000 \<and> default_arg 32 None = 32
         \<and> train_gan be z t (Some 0) any_batch_size = Inr t"
proof -
  let ?E = "default_arg 1000 epochs" and ?B = "default_arg 32 batch_size"
  have zero: "train_gan be z t (Some 0) any_batch_size = Inr t"
    by (simp add: train_gan_def py_range_def default_arg_def)
  have defaults: "default_arg 1000 None = 1000" "default_arg 32 None = 32"
    by (simp_all add: default_arg_def)
  from train_gan_loop_trace [OF assms, where be = be and z = z and es = "py_range ?E"]
  obtain f where f: "f 0 = s"
    "\<forall>k<nat ?E. train_gan_body be z ?B (py_range ?E ! k) (f k) = Inr (f (Suc k))"
    "train_gan_loop be z ?B (py_range ?E) s = Inr (f (nat ?E))"
    "\<forall>k\<le>nat ?E. as_built (f k)
          \<and> steps_taken (gan_compiled (f k)) = steps_taken (gan_compiled s) + k
          \<and> steps_taken (discriminator_compiled (f k)) =
              steps_taken (discriminator_compiled s) + 2 * k
          \<and> np_random (f k) = np_random s + k * (3 * (nat ?B * 30))"
    unfolding length_py_range by blast
  from f(2) have body: "\<forall>k<nat ?E. train_gan_body be z ?B (int k) (f k) = Inr (f (Suc k))"
    by (simp add: nth_py_range)
  from f(3) have run: "train_gan be z s epochs batch_size = Inr (f (nat ?E))"
    by (simp add: train_gan_def)
  from f(1) body run f(4) have "\<exists>f. f 0 = s
          \<and> (\<forall>k<nat ?E. train_gan_body be z ?B (int k) (f k) = Inr (f (Suc k)))
          \<and> train_gan be z s epochs batch_size = Inr (f (nat ?E))
          \<and> (\<forall>k\<le>nat ?E. as_built (f k)
                \<and> steps_taken (gan_compiled (f k)) = steps_taken (gan_compiled s) + k
                \<and> steps_taken (discriminator_compiled (f k)) =
                    steps_taken (discriminator_compiled s) + 2 * k
                \<and> np_random (f k) = np_random s + k * (3 * (nat ?B * 30)))"
    by blast
  with defaults zero show ?thesis by blast
qed

theorem train_gan_runs_all_epochs_witness:
  "as_built (notebook_models [0] [0]) \<and> 0 < default_arg 32 (Some 1)
   \<and> (\<exists>s1 s2.
         train_gan_body sample_backend sample_variates 1 0 (notebook_models [0] [0]) = Inr s1
       \<and> train_gan_body sample_backend sample_variates 1 1 s1 = Inr s2
       \<and> train_gan sample_backend sample_variates (notebook_models [0] [0]) (Some 2) (Some 1)
           = Inr s2
       \<and> generator_weights s1 = [1] \<and> discriminator_weights s1 = [2]
       \<and> generator_weights s2 = [2] \<and> discriminator_weights s2 = [4]
       \<and> length (stdout s2) = 1
       \<and> steps_taken (gan_compiled s2) = 2
       \<and> steps_taken (discriminator_compiled s2) = 4
       \<and> np_random s2 = 180)
   \<and> train_gan sample_backend sample_variates (notebook_models [0] [0]) (Some 0) None
       = Inr (notebook_models [0] [0])"
proof -
  let ?s0 = "notebook_models [0] [0]"
  have b: "as_built ?s0" by (rule as_built_notebook_models)
  have pos: "0 < default_arg 32 (Some 1)" by (simp add: default_arg_def)
  have w: "steps_taken (discriminator_compiled ?s0) = 0" "steps_taken (gan_compiled ?s0) = 0"
      "np_random ?s0 = 0" "generator_weights ?s0 = [0]" "discriminator_weights ?s0 = [0]"
      "stdout ?s0 = []"
    by (simp_all add: notebook_models_def Let_def steps_taken_def compile_def)
  have d: "default_arg 1000 (Some 2) = 2" "default_arg 32 (Some 1) = 1"
    by (simp_all add: default_arg_def)
  from train_gan_runs_all_epochs [OF b pos, where be = sample_backend and z = sample_variates
      and epochs = "Some 2" and t = ?s0 and any_batch_size = None]
  obtain f where f: "f 0 = ?s0"
    "\<forall>k<2. train_gan_body sample_backend sample_variates 1 (int k) (f k) = Inr (f (Suc k))"
    "train_gan sample_backend sample_variates ?s0 (Some 2) (Some 1) = Inr (f 2)"
    "\<forall>k\<le>2. as_built (f k)
        \<and> steps_taken (gan_compiled (f k)) = steps_taken (gan_compiled ?s0) + k
        \<and> steps_taken (discriminator_compiled (f k)) =
            steps_taken (discriminator_compiled ?s0) + 2 * k
        \<and> np_random (f k) = np_random ?s0 + k * (3 * (nat 1 * 30))"
    and zero: "train_gan sample_backend sample_variates ?s0 (Some 0) None = Inr ?s0"
    unfolding d by auto
  define s1 where "s1 = f (Suc 0)"
  define s2 where "s2 = f (Suc (Suc 0))"
  have two: "(2::nat) = Suc (Suc 0)" by simp
  from f(2) [rule_format, of 0] f(1)
  have b0: "train_gan_body sample_backend sample_variates 1 0 ?s0 = Inr s1"
    by (simp add: s1_def)
  from f(2) [rule_format, of "Suc 0"]
  have b1: "train_gan_body sample_backend sample_variates 1 1 s1 = Inr s2"
    by (simp add: s1_def s2_def)
  from f(3) have run: "train_gan sample_backend sample_variates ?s0 (Some 2) (Some 1) = Inr s2"
    unfolding s2_def two .
  from f(4) [rule_format, of "Suc 0"] have a1: "as_built s1"
    by (simp add: s1_def)
  from f(4) [rule_format, of "Suc (Suc 0)"]
  have c2: "steps_taken (gan_compiled s2) = 2"
      "steps_taken (discriminator_compiled s2) = 4" "np_random s2 = 180"
    by (simp_all add: s2_def w)
  from sample_backend_body [OF b _ b0]
  have w1: "generator_weights s1 = [1]" "discriminator_weights s1 = [2]"
      "length (stdout s1) = 1"
    by (simp_all add: w)
  from sample_backend_body [OF a1 _ b1]
  have w2: "generator_weights s2 = [2]" "discriminator_weights s2 = [4]"
      "length (stdout s2) = 1"
    by (simp_all add: w1)
  from b0 b1 run w1 w2 c2 have "\<exists>s1 s2.
         train_gan_body sample_backend sample_variates 1 0 ?s0 = Inr s1
       \<and> train_gan_body sample_backend sample_variates 1 1 s1 = Inr s2
       \<and> train_gan sample_backend sample_variates ?s0 (Some 2) (Some 1) = Inr s2
       \<and> generator_weights s1 = [1] \<and> discriminator_weights s1 = [2]
       \<and> generator_weights s2 = [2] \<and> discriminator_weights s2 = [4]
       \<and> length (stdout s2) = 1
       \<and> steps_taken (gan_compiled s2) = 2
       \<and> steps_taken (discriminator_compiled s2) = 4
       \<and> np_random s2 = 180"
    by blast
  with b pos zero show ?thesis by blast
qed

section \<open>Properties of the ARIMA baseline\<close>

lemma real_data_100:
  "generate_real_data z 100 pos =
     Inr (\<lparr>shape = [100, 30, 1],
           data = map (\<lambda>k. Finite (sin (ramp 3000 k) + 0.5 * z (pos + k))) [0..<3000]\<rparr>,
          pos + 3000)"
  using generate_real_data_value [of 100 z pos] by simp

text \<open>
  C6.  What the cell does.  The batch of 100 samples is flattened: the series given to the
  library has the 3000 values of the batch, in their order, and the shape \<open>(3000)\<close>.  The
  model is fit to it with the order \<open>(5, 1, 0)\<close>; when the fit fails, the cell fails with
  FittingFailure.  When the fit succeeds, the prediction from 0 to 2999 comes back as a NumPy
  array, since the series is one, and reading its attribute \<open>values\<close> raises AttributeError
  before anything is reshaped.  So the cell never returns an array, and on a successful fit
  its failure is not a FittingFailure; the last line shows it on the example library, whose
  fit succeeds.
\<close>

theorem arima_pred_attribute_error:
  "(\<exists>real_data.
       generate_real_data z 100 pos = Inr (real_data, pos + 3000)
     \<and> flatten real_data = \<lparr>shape = [3000], data = data real_data\<rparr>
     \<and> length (data real_data) = 3000
     \<and> series_data (NdArray (flatten real_data)) = data real_data
     \<and> py_len (NdArray (flatten real_data)) - 1 = 2999
     \<and> values_attribute
          (arima_predict forecast (NdArray (flatten real_data)) m 0 2999 ''levels'')
          = Inl AttributeError
     \<and> arima_pred fit forecast z pos =
          (case fit (data real_data) (5, 1, 0) of
             None \<Rightarrow> Inl FittingFailure
           | Some fitted \<Rightarrow> Inl AttributeError))
   \<and> arima_pred sample_fit sample_forecast sample_variates 0 = Inl AttributeError
   \<and> arima_pred failing_fit sample_forecast sample_variates 0 = Inl FittingFailure"
proof -
  let ?rd = "\<lambda>z pos. \<lparr>shape = [100, 30, 1],
      data = map (\<lambda>k. Finite (sin (ramp 3000 k) + 0.5 * z (pos + k))) [0..<3000]\<rparr>"
  have flat: "flatten (?rd z pos) = \<lparr>shape = [3000], data = data (?rd z pos)\<rparr>" for z pos
    by (simp add: flatten_def)
  have attr: "values_attribute (arima_predict fc (NdArray a) m' st en ty) = Inl AttributeError"
    for fc :: "'b \<Rightarrow> int \<Rightarrow> int \<Rightarrow> string \<Rightarrow> fval list" and a m' st en ty
    by (simp add: values_attribute_def arima_predict_def Let_def)
  have run: "arima_pred ft fc z pos =
      (case ft (data (?rd z pos)) (5, 1, 0) of
         None \<Rightarrow> Inl FittingFailure
       | Some fitted \<Rightarrow> Inl AttributeError)"
    for ft :: "fval list \<Rightarrow> nat \<times> nat \<times> nat \<Rightarrow> 'b option"
      and fc :: "'b \<Rightarrow> int \<Rightarrow> int \<Rightarrow> string \<Rightarrow> fval list" and z pos
    unfolding arima_pred_def real_data_100 and_then_def
    by (simp add: Let_def attr series_data_def flatten_def split: option.splits)
  have general: "\<exists>real_data.
       generate_real_data z 100 pos = Inr (real_data, pos + 3000)
     \<and> flatten real_data = \<lparr>shape = [3000], data = data real_data\<rparr>
     \<and> length (data real_data) = 3000
     \<and> series_data (NdArray (flatten real_data)) = data real_data
     \<and> py_len (NdArray (flatten real_data)) - 1 = 2999
     \<and> values_attribute
          (arima_predict forecast (NdArray (flatten real_data)) m 0 2999 ''levels'')
          = Inl AttributeError
     \<and> arima_pred fit forecast z pos =
          (case fit (data real_data) (5, 1, 0) of
             None \<Rightarrow> Inl FittingFailure
           | Some fitted \<Rightarrow> Inl AttributeError)"
  proof (intro exI [of _ "?rd z pos"] conjI)
    show "generate_real_data z 100 pos = Inr (?rd z pos, pos + 3000)" by (rule real_data_100)
    show "flatten (?rd z pos) = \<lparr>shape = [3000], data = data (?rd z pos)\<rparr>" by (rule flat)
    show "length (data (?rd z pos)) = 3000" by simp
    show "series_data (NdArray (flatten (?rd z pos))) = data (?rd z pos)"
      by (simp add: series_data_def flatten_def)
    show "py_len (NdArray (flatten (?rd z pos))) - 1 = 2999"
      by (simp add: py_len_def series_data_def flatten_def)
    show "values_attribute
        (arima_predict forecast (NdArray (flatten (?rd z pos))) m 0 2999 ''levels'')
        = Inl AttributeError"
      by (rule attr)
    show "arima_pred fit forecast z pos =
        (case fit (data (?rd z pos)) (5, 1, 0) of
           None \<Rightarrow> Inl FittingFailure
         | Some fitted \<Rightarrow> Inl AttributeError)"
      by (rule run)
  qed
  have sample: "arima_pred sample_fit sample_forecast sample_variates 0 = Inl AttributeError"
    unfolding run by (simp add: sample_fit_def)
  have failing: "arima_pred failing_fit sample_forecast sample_variates 0 = Inl FittingFailure"
    unfolding run by (simp add: failing_fit_def)
  from general sample failing show ?thesis by blast
qed

end
